theory Spec2Isabelle
  imports Complex_Main
begin

section \<open>Data model of \<^verbatim>\<open>ruckig.hpp\<close>\<close>

text \<open>
  A \<^verbatim>\<open>double\<close> is modelled as a real number; a \<^verbatim>\<open>std::array<double, N>\<close> is a list
  (of length \<open>N\<close>, which the theorems assume where they index it). Rounding, NaN inputs
  and signed zeros are outside this model. The two places where the source itself
  produces a non-finite value are written out: the infinite synchronisation candidates
  (type \<open>ext_time\<close> below) and the square root of a negative number in
  \<open>validate_input\<close>.
\<close>

datatype Limits = ACC0_ACC1_VEL | VEL | ACC0 | ACC1 | ACC0_ACC1 | ACC0_VEL | ACC1_VEL | NONE

datatype Direction = UP | DOWN

datatype Teeth = UDDU | UDUD

record Profile =
  limits :: Limits
  direction :: Direction
  teeth :: Teeth
  t :: "real list"
  t_sum :: "real list"
  j :: "real list"
  a :: "real list"
  v :: "real list"
  p :: "real list"
  t_brake :: "real option"
  t_brakes :: "real list"
  j_brakes :: "real list"
  a_brakes :: "real list"
  v_brakes :: "real list"
  p_brakes :: "real list"

text \<open>
  Modelled from the spec: \<^verbatim>\<open>Profile::integrate\<close> is declared in the header (lines 75 and 76, "Integrate
  with constant jerk for duration t. Returns new position, new velocity, and new
  acceleration") and defined in a source file that is not part of \<^verbatim>\<open>ruckig.hpp\<close>. Section
  4.1 of the specification gives its closed form; the loop of \<^verbatim>\<open>Profile::check\<close> (lines 52
  to 54) uses the same polynomials inline.
\<close>

definition integrate :: "real \<Rightarrow> real \<Rightarrow> real \<Rightarrow> real \<Rightarrow> real \<Rightarrow> real \<times> real \<times> real" where
  "integrate tm p0 v0 a0 jk =
     (p0 + v0 * tm + a0 * tm\<^sup>2 / 2 + jk * tm ^ 3 / 6,
      v0 + a0 * tm + jk * tm\<^sup>2 / 2,
      a0 + jk * tm)"

subsection \<open>\<^verbatim>\<open>Profile::check\<close>\<close>

text \<open>
  The template parameter \<^verbatim>\<open>teeth\<close> is the first argument. \<open>check\<close> mutates the profile it
  is called on, so the model returns the verdict together with the profile as the call
  leaves it; an early \<^verbatim>\<open>return false\<close> leaves it partly written.
\<close>

definition jerk_pattern :: "Teeth \<Rightarrow> real \<Rightarrow> real list" where
  "jerk_pattern th jf =
     (case th of
        UDDU \<Rightarrow> [jf, 0, - jf, 0, - jf, 0, jf]
      | UDUD \<Rightarrow> [jf, 0, - jf, 0, jf, 0, - jf])"

text \<open>The loop \<^verbatim>\<open>for (i = 0; i < 6; i += 1)\<close> of lines 44 to 50, over the remaining indices.\<close>

fun t_sum_loop :: "nat list \<Rightarrow> Profile \<Rightarrow> bool \<times> Profile" where
  "t_sum_loop [] pr = (True, pr)"
| "t_sum_loop (i # rest) pr =
     (if t pr ! (i + 1) < 0 then (False, pr)
      else t_sum_loop rest (pr\<lparr>t_sum := (t_sum pr)[i + 1 := t_sum pr ! i + t pr ! (i + 1)]\<rparr>))"

text \<open>The body of the loop \<^verbatim>\<open>for (i = 0; i < 7; i += 1)\<close> of lines 51 to 55, and the loop.\<close>

definition integrate_step :: "nat \<Rightarrow> Profile \<Rightarrow> Profile" where
  "integrate_step i pr =
     (let pr1 = pr\<lparr>a := (a pr)[i + 1 := a pr ! i + t pr ! i * j pr ! i]\<rparr>;
          pr2 = pr1\<lparr>v := (v pr1)[i + 1 := v pr1 ! i + t pr1 ! i * (a pr1 ! i + t pr1 ! i * j pr1 ! i / 2)]\<rparr>
      in pr2\<lparr>p := (p pr2)[i + 1 :=
             p pr2 ! i + t pr2 ! i * (v pr2 ! i + t pr2 ! i * (a pr2 ! i / 2 + t pr2 ! i * j pr2 ! i / 6))]\<rparr>)"

fun integrate_loop :: "nat list \<Rightarrow> Profile \<Rightarrow> Profile" where
  "integrate_loop [] pr = pr"
| "integrate_loop (i # rest) pr = integrate_loop rest (integrate_step i pr)"

definition check :: "Teeth \<Rightarrow> real \<Rightarrow> real \<Rightarrow> real \<Rightarrow> real \<Rightarrow> real \<Rightarrow> real \<Rightarrow> Profile \<Rightarrow> bool \<times> Profile" where
  "check th pf vf af jf vMax aMax pr0 =
     (let pr1 = pr0\<lparr>j := jerk_pattern th jf\<rparr>;
          pr2 = pr1\<lparr>t_sum := (t_sum pr1)[0 := t pr1 ! 0]\<rparr>
      in if t pr2 ! 0 < 0 then (False, pr2)
         else (case t_sum_loop [0..<6] pr2 of
                 (False, pr3) \<Rightarrow> (False, pr3)
               | (True, pr3) \<Rightarrow>
                   (let pr4 = integrate_loop [0..<7] pr3
                    in (list_all (\<lambda>vm. \<bar>vm\<bar> < \<bar>vMax\<bar> + 1 / 10 ^ 9) (drop 3 (v pr4))
                        \<and> list_all (\<lambda>am. \<bar>am\<bar> < \<bar>aMax\<bar> + 1 / 10 ^ 9) (drop 2 (a pr4))
                        \<and> \<bar>p pr4 ! 7 - pf\<bar> < 1 / 10 ^ 8 \<and> \<bar>v pr4 ! 7 - vf\<bar> < 1 / 10 ^ 8
                        \<and> \<bar>a pr4 ! 7 - af\<bar> < 1 / 10 ^ 8, pr4))))"

text \<open>The overload with a duration \<^verbatim>\<open>tf\<close> (line 65); \<^verbatim>\<open>&&\<close> evaluates the inner check first.\<close>

definition check_tf :: "Teeth \<Rightarrow> real \<Rightarrow> real \<Rightarrow> real \<Rightarrow> real \<Rightarrow> real \<Rightarrow> real \<Rightarrow> real \<Rightarrow> Profile \<Rightarrow> bool \<times> Profile" where
  "check_tf th tf' pf vf af jf vMax aMax pr0 =
     (case check th pf vf af jf vMax aMax pr0 of
        (ok, pr1) \<Rightarrow> (ok \<and> \<bar>t_sum pr1 ! 6 - tf'\<bar> < 1 / 10 ^ 8, pr1))"

text \<open>
  The overload with a duration and a jerk limit (line 71); when the jerk test fails,
  \<^verbatim>\<open>&&\<close> does not call the inner check and the profile is left as it was.
\<close>

definition check_tf_jMax :: "Teeth \<Rightarrow> real \<Rightarrow> real \<Rightarrow> real \<Rightarrow> real \<Rightarrow> real \<Rightarrow> real \<Rightarrow> real \<Rightarrow> real \<Rightarrow> Profile \<Rightarrow> bool \<times> Profile" where
  "check_tf_jMax th tf' pf vf af jf vMax aMax jMax pr0 =
     (if \<bar>jf\<bar> < \<bar>jMax\<bar> + 1 / 10 ^ 12 then check_tf th tf' pf vf af jf vMax aMax pr0
      else (False, pr0))"

section \<open>Synchronisation of the axes\<close>

subsection \<open>Durations that may be infinite\<close>

text \<open>
  \<^verbatim>\<open>synchronize\<close> puts \<^verbatim>\<open>std::numeric_limits<double>::infinity()\<close> in the place of an
  absent interval, compares it with \<^verbatim>\<open><\<close> like any other candidate and may return it as
  \<^verbatim>\<open>t_sync\<close>, which is the member \<^verbatim>\<open>tf\<close>. These values are of type \<open>ext_time\<close>: a real
  or positive infinity, ordered as IEEE doubles are.
\<close>

datatype ext_time = Finite real | Infinity

instantiation ext_time :: linorder
begin

fun less_eq_ext_time :: "ext_time \<Rightarrow> ext_time \<Rightarrow> bool" where
  "less_eq_ext_time (Finite x) (Finite y) = (x \<le> y)"
| "less_eq_ext_time (Finite x) Infinity = True"
| "less_eq_ext_time Infinity (Finite y) = False"
| "less_eq_ext_time Infinity Infinity = True"

fun less_ext_time :: "ext_time \<Rightarrow> ext_time \<Rightarrow> bool" where
  "less_ext_time (Finite x) (Finite y) = (x < y)"
| "less_ext_time (Finite x) Infinity = True"
| "less_ext_time Infinity (Finite y) = False"
| "less_ext_time Infinity Infinity = False"

instance
proof
  fix x y z :: ext_time
  show "(x < y) = (x \<le> y \<and> \<not> y \<le> x)" by (cases x; cases y) auto
  show "x \<le> x" by (cases x) auto
  show "x \<le> y \<Longrightarrow> y \<le> z \<Longrightarrow> x \<le> z" by (cases x; cases y; cases z) auto
  show "x \<le> y \<Longrightarrow> y \<le> x \<Longrightarrow> x = y" by (cases x; cases y) auto
  show "x \<le> y \<or> y \<le> x" by (cases x; cases y) auto
qed

end

subsection \<open>\<^verbatim>\<open>Block\<close>\<close>

text \<open>
  The members \<^verbatim>\<open>a\<close> and \<^verbatim>\<open>b\<close> of \<^verbatim>\<open>Block\<close> are named \<open>a_interval\<close> and \<open>b_interval\<close>
  here, since \<open>a\<close> is already the acceleration array of \<open>Profile\<close>.
\<close>

record Interval =
  left :: real
  right :: real

record Block =
  t_min :: real
  p_min :: Profile
  a_interval :: "Interval option"
  b_interval :: "Interval option"
  p_a :: "Profile option"
  p_b :: "Profile option"

definition is_blocked :: "Block \<Rightarrow> ext_time \<Rightarrow> bool" where
  "is_blocked blk tau =
     (tau < Finite (t_min blk)
      \<or> (case a_interval blk of None \<Rightarrow> False | Some iv \<Rightarrow> Finite (left iv) < tau \<and> tau < Finite (right iv))
      \<or> (case b_interval blk of None \<Rightarrow> False | Some iv \<Rightarrow> Finite (left iv) < tau \<and> tau < Finite (right iv)))"

subsection \<open>\<^verbatim>\<open>Ruckig::synchronize\<close>\<close>

text \<open>
  What a call can throw: the three \<^verbatim>\<open>std::runtime_error\<close>s of \<^verbatim>\<open>calculate\<close> (the axis
  stands for the message) and the \<^verbatim>\<open>std::bad_optional_access\<close> of
  \<^verbatim>\<open>std::optional::value()\<close> on an empty optional. A thrown exception is the \<open>Inl\<close> of a
  result; the state the call leaves behind is then not described.
\<close>

datatype exn =
  runtime_error_step1 nat
  | runtime_error_synchronization
  | runtime_error_step2 nat
  | bad_optional_access

text \<open>Lines 204 to 210: three candidates for each axis, in the order of the axes.\<close>

definition possible_t_syncs :: "Block list \<Rightarrow> ext_time list" where
  "possible_t_syncs blocks =
     concat (map (\<lambda>blk.
       [Finite (t_min blk),
        (case a_interval blk of Some iv \<Rightarrow> Finite (right iv) | None \<Rightarrow> Infinity),
        (case b_interval blk of Some iv \<Rightarrow> Finite (right iv) | None \<Rightarrow> Infinity)]) blocks)"

text \<open>
  Lines 213 to 215: \<^verbatim>\<open>std::iota\<close> and \<^verbatim>\<open>std::stable_sort\<close> of the indices by their
  candidates; \<open>sort_key\<close> is the stable insertion sort of the library.
\<close>

definition sorted_idx :: "ext_time list \<Rightarrow> nat list" where
  "sorted_idx cands = sort_key (\<lambda>i. cands ! i) [0..<length cands]"

text \<open>The test of line 219, true when the candidate is skipped.\<close>

definition rejected :: "Block list \<Rightarrow> real option \<Rightarrow> ext_time \<Rightarrow> bool" where
  "rejected blocks t_min_floor possible_t_sync =
     (list_ex (\<lambda>blk. is_blocked blk possible_t_sync) blocks
      \<or> possible_t_sync < Finite (case t_min_floor of Some m \<Rightarrow> m | None \<Rightarrow> 0))"

text \<open>
  Lines 223 to 237 for the accepted index \<open>i\<close>: the outputs \<^verbatim>\<open>t_sync\<close>, \<^verbatim>\<open>limiting_dof\<close>
  and the updated \<^verbatim>\<open>profiles\<close>, or the exception of \<^verbatim>\<open>value()\<close>.
\<close>

definition accept :: "Block list \<Rightarrow> ext_time list \<Rightarrow> Profile list \<Rightarrow> nat \<Rightarrow> exn + (ext_time \<times> nat \<times> Profile list)" where
  "accept blocks cands profs i =
     (let t_sync = cands ! i;
          limiting_dof = nat (\<lceil>(real i + 1) / 3\<rceil> - 1)
      in if i mod 3 = 0 then Inr (t_sync, limiting_dof, profs[limiting_dof := p_min (blocks ! limiting_dof)])
         else if i mod 3 = 1 then
           (case p_a (blocks ! limiting_dof) of
              None \<Rightarrow> Inl bad_optional_access
            | Some pa \<Rightarrow> Inr (t_sync, limiting_dof, profs[limiting_dof := pa]))
         else
           (case p_b (blocks ! limiting_dof) of
              None \<Rightarrow> Inl bad_optional_access
            | Some pb \<Rightarrow> Inr (t_sync, limiting_dof, profs[limiting_dof := pb])))"

text \<open>The loop of lines 217 to 238 over the sorted indices; \<open>None\<close> is \<^verbatim>\<open>return false\<close>.\<close>

fun try_candidates ::
  "Block list \<Rightarrow> real option \<Rightarrow> ext_time list \<Rightarrow> Profile list \<Rightarrow> nat list
     \<Rightarrow> exn + (ext_time \<times> nat \<times> Profile list) option" where
  "try_candidates blocks t_min_floor cands profs [] = Inr None"
| "try_candidates blocks t_min_floor cands profs (i # rest) =
     (if rejected blocks t_min_floor (cands ! i) then try_candidates blocks t_min_floor cands profs rest
      else (case accept blocks cands profs i of Inl e \<Rightarrow> Inl e | Inr res \<Rightarrow> Inr (Some res)))"

text \<open>
  \<^verbatim>\<open>synchronize\<close>; the template parameter \<^verbatim>\<open>DOFs\<close> is the length of \<open>blocks\<close>. The result
  \<open>Inr (Some (t_sync, limiting_dof, profiles))\<close> is \<^verbatim>\<open>return true\<close> with the three
  reference parameters as written; \<open>Inr None\<close> is \<^verbatim>\<open>return false\<close>, which writes none.
\<close>

definition synchronize ::
  "Block list \<Rightarrow> real option \<Rightarrow> Profile list \<Rightarrow> exn + (ext_time \<times> nat \<times> Profile list) option" where
  "synchronize blocks t_min_floor profs =
     (if length blocks = 1 \<and> t_min_floor = None
      then Inr (Some (Finite (t_min (blocks ! 0)), 0, profs[0 := p_min (blocks ! 0)]))
      else try_candidates blocks t_min_floor (possible_t_syncs blocks) profs
             (sorted_idx (possible_t_syncs blocks)))"

section \<open>The orchestrator \<^verbatim>\<open>Ruckig<DOFs>\<close>\<close>

subsection \<open>Parameters, results and state\<close>

text \<open>
  Modelled from the spec: \<^verbatim>\<open>InputParameter\<close>, \<^verbatim>\<open>OutputParameter\<close> and \<^verbatim>\<open>Result\<close> are
  declared in \<^verbatim>\<open>ruckig/parameter.hpp\<close>, which is not part of the sources. The fields are
  those \<^verbatim>\<open>ruckig.hpp\<close> reads and writes, as sections 3 and 6 of the specification list
  them; the comparison \<^verbatim>\<open>input != current_input\<close> is field-wise equality (section 6), that
  is, inequality of the records. \<^verbatim>\<open>calculation_duration\<close>, a wall-clock measurement, is
  left out.
\<close>

record InputParameter =
  current_position :: "real list"
  current_velocity :: "real list"
  current_acceleration :: "real list"
  target_position :: "real list"
  target_velocity :: "real list"
  target_acceleration :: "real list"
  max_velocity :: "real list"
  max_acceleration :: "real list"
  max_jerk :: "real list"
  enabled :: "bool list"
  minimum_duration :: "real option"

record OutputParameter =
  new_position :: "real list"
  new_velocity :: "real list"
  new_acceleration :: "real list"
  duration :: ext_time
  new_calculation :: bool
  independent_min_durations :: "real list"

datatype Result =
  Working | Finished | Error | ErrorInvalidInput
  | ErrorExecutionTimeCalculation | ErrorSynchronizationCalculation

text \<open>
  The members of \<^verbatim>\<open>Ruckig<DOFs>\<close>. The clock \<^verbatim>\<open>t\<close> is named \<open>t_clock\<close>, since \<open>t\<close> is
  already the array of segment durations of \<open>Profile\<close>. The template parameter \<^verbatim>\<open>DOFs\<close>
  is an argument of the functions below.
\<close>

record Ruckig =
  current_input :: InputParameter
  t_clock :: real
  tf :: ext_time
  profiles :: "Profile list"
  delta_time :: real

text \<open>
  \<^verbatim>\<open>Brake\<close>, \<^verbatim>\<open>Step1\<close> and \<^verbatim>\<open>Step2\<close> are declared in the header and defined elsewhere;
  they are parameters of the model, with the signatures of their declarations:
  \<^item> \<open>get_brake_trajectory v0 a0 vMax aMax jMax t_brake j_brake\<close> returns the two arrays
    it writes through its reference parameters;
  \<^item> \<open>step1_get_profile p0 v0 a0 pf vf af vMax aMax jMax profile\<close> is the construction
    of a \<^verbatim>\<open>Step1\<close> followed by \<^verbatim>\<open>get_profile\<close> (which takes the profile by constant
    reference): \<open>Some block\<close> when it returns true, \<open>None\<close> when it returns false;
  \<^item> \<open>step2_get_profile tf p0 v0 a0 pf vf af vMax aMax jMax profile\<close> is the construction of
    a \<^verbatim>\<open>Step2\<close> followed by \<^verbatim>\<open>get_profile\<close>: \<open>Some\<close> of the profile it has written when it
    returns true, \<open>None\<close> when it returns false.
\<close>

record Solvers =
  get_brake_trajectory ::
    "real \<Rightarrow> real \<Rightarrow> real \<Rightarrow> real \<Rightarrow> real \<Rightarrow> real list \<Rightarrow> real list \<Rightarrow> real list \<times> real list"
  step1_get_profile ::
    "real \<Rightarrow> real \<Rightarrow> real \<Rightarrow> real \<Rightarrow> real \<Rightarrow> real \<Rightarrow> real \<Rightarrow> real \<Rightarrow> real \<Rightarrow> Profile \<Rightarrow> Block option"
  step2_get_profile ::
    "ext_time \<Rightarrow> real \<Rightarrow> real \<Rightarrow> real \<Rightarrow> real \<Rightarrow> real \<Rightarrow> real \<Rightarrow> real \<Rightarrow> real \<Rightarrow> real \<Rightarrow> Profile \<Rightarrow> Profile option"

subsection \<open>\<^verbatim>\<open>Ruckig::validate_input\<close>\<close>

text \<open>
  The body of the loop for one axis, true when no test returns false. \<^verbatim>\<open>std::sqrt\<close> of a
  negative number is NaN and every comparison with NaN is false, so the last test
  rejects only when the radicand is not negative.
\<close>

definition validate_axis :: "InputParameter \<Rightarrow> nat \<Rightarrow> bool" where
  "validate_axis input dof =
     (if max_velocity input ! dof \<le> 0 then False
      else if max_acceleration input ! dof \<le> 0 then False
      else if max_jerk input ! dof \<le> 0 then False
      else if target_velocity input ! dof > max_velocity input ! dof then False
      else if target_acceleration input ! dof > max_acceleration input ! dof then False
      else (let radicand = 2 * max_jerk input ! dof * (max_velocity input ! dof - \<bar>target_velocity input ! dof\<bar>)
            in if 0 \<le> radicand \<and> \<bar>target_acceleration input ! dof\<bar> > sqrt radicand then False
               else True))"

fun validate_loop :: "InputParameter \<Rightarrow> nat list \<Rightarrow> bool" where
  "validate_loop input [] = True"
| "validate_loop input (dof # rest) = (if validate_axis input dof then validate_loop input rest else False)"

definition validate_input :: "nat \<Rightarrow> InputParameter \<Rightarrow> bool" where
  "validate_input DOFs input = validate_loop input [0..<DOFs]"

subsection \<open>\<^verbatim>\<open>Ruckig::calculate\<close>\<close>

text \<open>
  Lines 263 to 282 for one enabled axis: the brake segments written into the profile and
  the state after them, \<^verbatim>\<open>(p0s[dof], v0s[dof], a0s[dof])\<close>.
\<close>

definition brake_profile :: "Solvers \<Rightarrow> InputParameter \<Rightarrow> nat \<Rightarrow> Profile \<Rightarrow> Profile \<times> real \<times> real \<times> real" where
  "brake_profile sv input dof prof0 =
     (let (tb, jb) = get_brake_trajectory sv (current_velocity input ! dof) (current_acceleration input ! dof)
                       (max_velocity input ! dof) (max_acceleration input ! dof) (max_jerk input ! dof)
                       (t_brakes prof0) (j_brakes prof0);
          prof1 = prof0\<lparr>t_brakes := tb, j_brakes := jb\<rparr>;
          prof2 = prof1\<lparr>t_brake := Some (t_brakes prof1 ! 0 + t_brakes prof1 ! 1)\<rparr>;
          p0 = current_position input ! dof;
          v0 = current_velocity input ! dof;
          a0 = current_acceleration input ! dof
      in if t_brakes prof2 ! 0 > 0 then
           (let prof3 = prof2\<lparr>p_brakes := (p_brakes prof2)[0 := p0], v_brakes := (v_brakes prof2)[0 := v0],
                              a_brakes := (a_brakes prof2)[0 := a0]\<rparr>;
                (p1, v1, a1) = integrate (t_brakes prof3 ! 0) p0 v0 a0 (j_brakes prof3 ! 0)
            in if t_brakes prof3 ! 1 > 0 then
                 (let prof4 = prof3\<lparr>p_brakes := (p_brakes prof3)[1 := p1], v_brakes := (v_brakes prof3)[1 := v1],
                                    a_brakes := (a_brakes prof3)[1 := a1]\<rparr>;
                      (p2, v2, a2) = integrate (t_brakes prof4 ! 1) p1 v1 a1 (j_brakes prof4 ! 1)
                  in (prof4, p2, v2, a2))
               else (prof3, p1, v1, a1))
         else (prof2, p0, v0, a0))"

text \<open>
  What the planning loops of \<^verbatim>\<open>calculate\<close> work on: the member \<^verbatim>\<open>profiles\<close>, the local
  arrays \<^verbatim>\<open>blocks\<close>, \<^verbatim>\<open>p0s\<close>, \<^verbatim>\<open>v0s\<close>, \<^verbatim>\<open>a0s\<close> and the caller's \<^verbatim>\<open>output\<close>. The local
  arrays are not initialised by the source and only the entries of enabled axes are
  written, so their initial contents are an argument of \<open>calculate\<close>.
\<close>

record Planning =
  plan_profiles :: "Profile list"
  blocks :: "Block list"
  p0s :: "real list"
  v0s :: "real list"
  a0s :: "real list"
  plan_output :: OutputParameter

text \<open>The loop of lines 257 to 293.\<close>

fun step1_loop :: "Solvers \<Rightarrow> InputParameter \<Rightarrow> nat list \<Rightarrow> Planning \<Rightarrow> exn + Planning" where
  "step1_loop sv input [] pl = Inr pl"
| "step1_loop sv input (dof # rest) pl =
     (if \<not> enabled input ! dof then step1_loop sv input rest pl
      else (case brake_profile sv input dof (plan_profiles pl ! dof) of
              (prof, p0, v0, a0) \<Rightarrow>
                (case step1_get_profile sv p0 v0 a0 (target_position input ! dof) (target_velocity input ! dof)
                        (target_acceleration input ! dof) (max_velocity input ! dof)
                        (max_acceleration input ! dof) (max_jerk input ! dof) prof of
                   None \<Rightarrow> Inl (runtime_error_step1 dof)
                 | Some blk \<Rightarrow>
                     step1_loop sv input rest
                       (pl\<lparr>plan_profiles := (plan_profiles pl)[dof := prof],
                           p0s := (p0s pl)[dof := p0], v0s := (v0s pl)[dof := v0], a0s := (a0s pl)[dof := a0],
                           blocks := (blocks pl)[dof := blk],
                           plan_output := (plan_output pl)\<lparr>independent_min_durations :=
                             (independent_min_durations (plan_output pl))[dof := t_min blk]\<rparr>\<rparr>))))"

text \<open>
  The loop of lines 305 to 318; \<open>t_profile\<close> is \<^verbatim>\<open>tf - profiles[dof].t_brake.value_or(0.0)\<close>,
  infinite when \<^verbatim>\<open>tf\<close> is.
\<close>

definition t_profile :: "ext_time \<Rightarrow> Profile \<Rightarrow> ext_time" where
  "t_profile tsync prof =
     (case tsync of
        Infinity \<Rightarrow> Infinity
      | Finite x \<Rightarrow> Finite (x - (case t_brake prof of Some tb \<Rightarrow> tb | None \<Rightarrow> 0)))"

fun step2_loop ::
  "Solvers \<Rightarrow> InputParameter \<Rightarrow> ext_time \<Rightarrow> nat \<Rightarrow> nat list \<Rightarrow> Planning \<Rightarrow> exn + Planning" where
  "step2_loop sv input tsync limiting_dof [] pl = Inr pl"
| "step2_loop sv input tsync limiting_dof (dof # rest) pl =
     (if \<not> enabled input ! dof \<or> dof = limiting_dof then step2_loop sv input tsync limiting_dof rest pl
      else (case step2_get_profile sv (t_profile tsync (plan_profiles pl ! dof))
                   (p0s pl ! dof) (v0s pl ! dof) (a0s pl ! dof)
                   (target_position input ! dof) (target_velocity input ! dof) (target_acceleration input ! dof)
                   (max_velocity input ! dof) (max_acceleration input ! dof) (max_jerk input ! dof)
                   (plan_profiles pl ! dof) of
              None \<Rightarrow> Inl (runtime_error_step2 dof)
            | Some prof \<Rightarrow>
                step2_loop sv input tsync limiting_dof rest (pl\<lparr>plan_profiles := (plan_profiles pl)[dof := prof]\<rparr>)))"

text \<open>
  \<^verbatim>\<open>calculate\<close>. The \<^verbatim>\<open>throw\<close> statements of lines 287, 300 and 315 stand before the
  \<^verbatim>\<open>return\<close> statements of lines 288, 301 and 316, which are never reached. \<open>locals0\<close>
  holds the initial contents of the local arrays (its \<open>plan_profiles\<close> and \<open>plan_output\<close>
  are not used).
\<close>

definition calculate ::
  "Solvers \<Rightarrow> nat \<Rightarrow> Planning \<Rightarrow> InputParameter \<Rightarrow> Ruckig \<Rightarrow> OutputParameter
     \<Rightarrow> exn + (Result \<times> Ruckig \<times> OutputParameter)" where
  "calculate sv DOFs locals0 input r0 out0 =
     (let r1 = r0\<lparr>current_input := input\<rparr>
      in if \<not> validate_input DOFs input then Inr (ErrorInvalidInput, r1, out0)
         else (case step1_loop sv input [0..<DOFs] (locals0\<lparr>plan_profiles := profiles r1, plan_output := out0\<rparr>) of
                 Inl e \<Rightarrow> Inl e
               | Inr pl1 \<Rightarrow>
                   (case synchronize (blocks pl1) (minimum_duration input) (plan_profiles pl1) of
                      Inl e \<Rightarrow> Inl e
                    | Inr None \<Rightarrow> Inl runtime_error_synchronization
                    | Inr (Some (t_sync, limiting_dof, profs)) \<Rightarrow>
                        (case (if Finite 0 < t_sync
                               then step2_loop sv input t_sync limiting_dof [0..<DOFs] (pl1\<lparr>plan_profiles := profs\<rparr>)
                               else Inr (pl1\<lparr>plan_profiles := profs\<rparr>)) of
                           Inl e \<Rightarrow> Inl e
                         | Inr pl2 \<Rightarrow>
                             Inr (Working,
                                  r1\<lparr>t_clock := 0, tf := t_sync, profiles := plan_profiles pl2\<rparr>,
                                  (plan_output pl2)\<lparr>duration := t_sync, new_calculation := True\<rparr>)))))"

subsection \<open>\<^verbatim>\<open>Ruckig::at_time\<close>\<close>

text \<open>The \<^verbatim>\<open>std::tie\<close> assignment to the three output arrays at one axis.\<close>

definition set_axis :: "OutputParameter \<Rightarrow> nat \<Rightarrow> real \<times> real \<times> real \<Rightarrow> OutputParameter" where
  "set_axis out dof pva =
     (case pva of
        (np, nv, na) \<Rightarrow>
          out\<lparr>new_position := (new_position out)[dof := np],
              new_velocity := (new_velocity out)[dof := nv],
              new_acceleration := (new_acceleration out)[dof := na]\<rparr>)"

text \<open>
  \<^verbatim>\<open>std::upper_bound\<close> followed by \<^verbatim>\<open>std::distance\<close> (lines 440 and 441): the index of the
  first element greater than \<open>x\<close>, the length when there is none (on a sorted array).
\<close>

definition upper_bound :: "real list \<Rightarrow> real \<Rightarrow> nat" where
  "upper_bound xs x = length (takeWhile (\<lambda>y. \<not> x < y) xs)"

text \<open>Lines 432 to 447, with \<open>t_diff\<close> the time left after the brake segments.\<close>

definition at_time_profile :: "Profile \<Rightarrow> real \<Rightarrow> nat \<Rightarrow> OutputParameter \<Rightarrow> OutputParameter" where
  "at_time_profile prof t_diff dof out =
     (if t_diff \<ge> t_sum prof ! 6 then
        out\<lparr>new_position := (new_position out)[dof := p prof ! 7],
            new_velocity := (new_velocity out)[dof := v prof ! 7],
            new_acceleration := (new_acceleration out)[dof := a prof ! 7]\<rparr>
      else (let index = upper_bound (t_sum prof) t_diff;
                t_diff' = (if index > 0 then t_diff - t_sum prof ! (index - 1) else t_diff)
            in set_axis out dof (integrate t_diff' (p prof ! index) (v prof ! index) (a prof ! index) (j prof ! index))))"

text \<open>
  The body of the loop of lines 410 to 448 for one axis. The branch of a disabled axis
  (line 412) has no \<^verbatim>\<open>continue\<close>: control goes on to line 415.
\<close>

definition at_time_axis :: "Ruckig \<Rightarrow> real \<Rightarrow> nat \<Rightarrow> OutputParameter \<Rightarrow> OutputParameter" where
  "at_time_axis r tm dof out0 =
     (let input = current_input r;
          out1 = (if \<not> enabled input ! dof
                  then set_axis out0 dof (integrate tm (current_position input ! dof)
                         (current_velocity input ! dof) (current_acceleration input ! dof) 0)
                  else out0);
          prof = profiles r ! dof;
          t_diff = tm
      in (case t_brake prof of
            Some tb \<Rightarrow>
              if t_diff < tb then
                (let index = (if t_diff < t_brakes prof ! 0 then 0 else 1);
                     t_diff' = (if index > 0 then t_diff - t_brakes prof ! (index - 1) else t_diff)
                 in set_axis out1 dof (integrate t_diff' (p_brakes prof ! index) (v_brakes prof ! index)
                                         (a_brakes prof ! index) (j_brakes prof ! index)))
              else at_time_profile prof (t_diff - tb) dof out1
          | None \<Rightarrow> at_time_profile prof t_diff dof out1))"

text \<open>Line 405 for one axis, with \<open>tfv\<close> the finite value of \<^verbatim>\<open>tf\<close>.\<close>

definition at_time_past_end :: "Ruckig \<Rightarrow> real \<Rightarrow> real \<Rightarrow> nat \<Rightarrow> OutputParameter \<Rightarrow> OutputParameter" where
  "at_time_past_end r tm tfv dof out =
     set_axis out dof (integrate (tm - tfv) (target_position (current_input r) ! dof)
       (target_velocity (current_input r) ! dof) (target_acceleration (current_input r) ! dof) 0)"

text \<open>
  \<^verbatim>\<open>at_time\<close>: the test \<^verbatim>\<open>time + delta_time > tf\<close> is false when \<^verbatim>\<open>tf\<close> is infinite.
\<close>

definition at_time :: "nat \<Rightarrow> Ruckig \<Rightarrow> real \<Rightarrow> OutputParameter \<Rightarrow> OutputParameter" where
  "at_time DOFs r tm out =
     (case tf r of
        Finite tfv \<Rightarrow>
          if tm + delta_time r > tfv then fold (at_time_past_end r tm tfv) [0..<DOFs] out
          else fold (at_time_axis r tm) [0..<DOFs] out
      | Infinity \<Rightarrow> fold (at_time_axis r tm) [0..<DOFs] out)"

subsection \<open>\<^verbatim>\<open>Ruckig::update\<close>\<close>

text \<open>Lines 386 to 398: sample the plan, then finish or advance the cached input.\<close>

definition sample_and_advance :: "nat \<Rightarrow> Ruckig \<Rightarrow> OutputParameter \<Rightarrow> Result \<times> Ruckig \<times> OutputParameter" where
  "sample_and_advance DOFs r out =
     (let out1 = at_time DOFs r (t_clock r) out
      in if Finite (t_clock r + delta_time r) > tf r then (Finished, r, out1)
         else (Working,
               r\<lparr>current_input := (current_input r)\<lparr>current_position := new_position out1,
                    current_velocity := new_velocity out1, current_acceleration := new_acceleration out1\<rparr>\<rparr>,
               out1))"

text \<open>
  \<^verbatim>\<open>update\<close>: \<^verbatim>\<open>&&\<close> calls \<^verbatim>\<open>calculate\<close> only when the input differs from the cached
  one, and any result of it but \<^verbatim>\<open>Working\<close> is returned as \<^verbatim>\<open>Result::Error\<close>.
\<close>

definition update ::
  "Solvers \<Rightarrow> nat \<Rightarrow> Planning \<Rightarrow> InputParameter \<Rightarrow> Ruckig \<Rightarrow> OutputParameter
     \<Rightarrow> exn + (Result \<times> Ruckig \<times> OutputParameter)" where
  "update sv DOFs locals0 input r0 out0 =
     (let r1 = r0\<lparr>t_clock := t_clock r0 + delta_time r0\<rparr>;
          out1 = out0\<lparr>new_calculation := False\<rparr>
      in if input \<noteq> current_input r1 then
           (case calculate sv DOFs locals0 input r1 out1 of
              Inl e \<Rightarrow> Inl e
            | Inr (res, r2, out2) \<Rightarrow>
                if Working \<noteq> res then Inr (Error, r2, out2)
                else Inr (sample_and_advance DOFs r2 out2))
         else Inr (sample_and_advance DOFs r1 out1))"

section \<open>Concrete profiles, blocks and states\<close>

text \<open>
  A profile before \<open>check\<close>: four jerk segments of one second each, from rest. With
  \<open>jf = 1\<close> and the pattern \<^verbatim>\<open>UDDU\<close> it moves from 0 to 2 in four seconds and touches the
  limits \<open>vMax = aMax = 1\<close>; \<open>check_example_done\<close> is the profile after the call.
\<close>

definition check_example :: Profile where
  "check_example =
     \<lparr>limits = NONE, direction = UP, teeth = UDDU,
      t = [1, 0, 1, 0, 1, 0, 1], t_sum = [0, 0, 0, 0, 0, 0, 0], j = [0, 0, 0, 0, 0, 0, 0],
      a = [0, 0, 0, 0, 0, 0, 0, 0], v = [0, 0, 0, 0, 0, 0, 0, 0], p = [0, 0, 0, 0, 0, 0, 0, 0],
      t_brake = None, t_brakes = [0, 0], j_brakes = [0, 0], a_brakes = [0, 0], v_brakes = [0, 0],
      p_brakes = [0, 0]\<rparr>"

definition check_example_done :: Profile where
  "check_example_done =
     check_example\<lparr>t_sum := [1, 1, 2, 2, 3, 3, 4], j := [1, 0, - 1, 0, - 1, 0, 1],
       a := [0, 1, 1, 0, 0, - 1, - 1, 0], v := [0, 1 / 2, 1 / 2, 1, 1, 1 / 2, 1 / 2, 0],
       p := [0, 1 / 6, 1 / 6, 1, 1, 11 / 6, 11 / 6, 2]\<rparr>"

text \<open>
  A profile of zero duration, to be checked against the negative limit \<open>vMax = - 1\<close> (the
  absolute values of lines 59, 60 and 72 provide for limits of either sign), and a profile
  whose first duration is negative.
\<close>

definition check_negative_vMax :: Profile where
  "check_negative_vMax = check_example\<lparr>t := [0, 0, 0, 0, 0, 0, 0]\<rparr>"

definition check_negative_t :: Profile where
  "check_negative_t = check_example\<lparr>t := [- 1, 0, 0, 0, 0, 0, 0], a := [0, 9, 9, 9, 9, 9, 9, 9]\<rparr>"

section \<open>Notions used in the statements about \<^verbatim>\<open>at_time\<close>\<close>

text \<open>
  The value that lines 432 to 447 leave at an axis (\<open>profile_sample\<close>) and the value that
  the whole loop body leaves there (\<open>axis_sample\<close>); the lemma \<open>at_time_axis_eq\<close> below
  shows that the loop body is one assignment of this value. \<open>time_past_brake\<close> is the time
  elapsed since the end of the brake segments, \<open>None\<close> while they still run.
\<close>

definition profile_sample :: "Profile \<Rightarrow> real \<Rightarrow> real \<times> real \<times> real" where
  "profile_sample prof t_diff =
     (if t_diff \<ge> t_sum prof ! 6 then (p prof ! 7, v prof ! 7, a prof ! 7)
      else (let index = upper_bound (t_sum prof) t_diff;
                t_diff' = (if index > 0 then t_diff - t_sum prof ! (index - 1) else t_diff)
            in integrate t_diff' (p prof ! index) (v prof ! index) (a prof ! index) (j prof ! index)))"

definition axis_sample :: "Ruckig \<Rightarrow> real \<Rightarrow> nat \<Rightarrow> real \<times> real \<times> real" where
  "axis_sample r tm dof =
     (let prof = profiles r ! dof
      in (case t_brake prof of
            Some tb \<Rightarrow>
              if tm < tb then
                (let index = (if tm < t_brakes prof ! 0 then 0 else 1);
                     t_diff' = (if index > 0 then tm - t_brakes prof ! (index - 1) else tm)
                 in integrate t_diff' (p_brakes prof ! index) (v_brakes prof ! index)
                      (a_brakes prof ! index) (j_brakes prof ! index))
              else profile_sample prof (tm - tb)
          | None \<Rightarrow> profile_sample prof tm))"

definition time_past_brake :: "Profile \<Rightarrow> real \<Rightarrow> real option" where
  "time_past_brake prof tm =
     (case t_brake prof of
        None \<Rightarrow> Some tm
      | Some tb \<Rightarrow> if tm < tb then None else Some (tm - tb))"

section \<open>Concrete inputs, outputs and states\<close>

text \<open>
  One axis, at rest at 0 with the target 2 and all limits 1; the plan is the profile
  \<open>check_example_done\<close> of four seconds. \<open>ruckig_past_end\<close> has the target acceleration
  \<open>1 / 2\<close>; \<open>ruckig_waiting\<close> has a plan of ten seconds, so that the axis is done before the
  plan ends. \<open>ruckig_disabled\<close> has two axes, the first disabled with the velocity 1, and
  holds a profile for each.
\<close>

definition input_example :: InputParameter where
  "input_example =
     \<lparr>current_position = [0], current_velocity = [0], current_acceleration = [0],
      target_position = [2], target_velocity = [0], target_acceleration = [0],
      max_velocity = [1], max_acceleration = [1], max_jerk = [1],
      enabled = [True], minimum_duration = None\<rparr>"

definition output_example :: OutputParameter where
  "output_example =
     \<lparr>new_position = [0], new_velocity = [0], new_acceleration = [0], duration = Finite 0,
      new_calculation = False, independent_min_durations = [0]\<rparr>"

definition ruckig_example :: Ruckig where
  "ruckig_example =
     \<lparr>current_input = input_example, t_clock = 0, tf = Finite 4, profiles = [check_example_done],
      delta_time = 1 / 100\<rparr>"

definition ruckig_past_end :: Ruckig where
  "ruckig_past_end = ruckig_example\<lparr>current_input := input_example\<lparr>target_acceleration := [1 / 2]\<rparr>\<rparr>"

definition ruckig_waiting :: Ruckig where
  "ruckig_waiting = ruckig_example\<lparr>tf := Finite 10\<rparr>"

definition input_disabled :: InputParameter where
  "input_disabled =
     \<lparr>current_position = [0, 0], current_velocity = [1, 0], current_acceleration = [0, 0],
      target_position = [2, 2], target_velocity = [0, 0], target_acceleration = [0, 0],
      max_velocity = [1, 1], max_acceleration = [1, 1], max_jerk = [1, 1],
      enabled = [False, True], minimum_duration = None\<rparr>"

definition output_two :: OutputParameter where
  "output_two =
     \<lparr>new_position = [0, 0], new_velocity = [0, 0], new_acceleration = [0, 0], duration = Finite 4,
      new_calculation = False, independent_min_durations = [0, 0]\<rparr>"

definition ruckig_disabled :: Ruckig where
  "ruckig_disabled =
     \<lparr>current_input = input_disabled, t_clock = 1, tf = Finite 4,
      profiles = [check_example_done, check_example_done], delta_time = 1 / 100\<rparr>"

section \<open>Notions used in the statements about \<^verbatim>\<open>synchronize\<close>\<close>

text \<open>
  The acceptance test in the words of the specification (section 4.6): a candidate is
  accepted when it is at least the floor (zero if there is none) and, for every axis, at
  least \<open>t_min\<close> and not strictly inside a forbidden interval (\<open>inside_interval\<close>, false for
  an absent interval). \<open>first_accepted\<close> says that
  the index \<open>i\<close> is the first accepted one in ascending order of the candidates, equal
  candidates in the order of their indices (the stable order).
\<close>

definition inside_interval :: "Interval option \<Rightarrow> ext_time \<Rightarrow> bool" where
  "inside_interval ivo tau =
     (case ivo of None \<Rightarrow> False | Some iv \<Rightarrow> Finite (left iv) < tau \<and> tau < Finite (right iv))"

definition accepted :: "Block list \<Rightarrow> real option \<Rightarrow> ext_time \<Rightarrow> bool" where
  "accepted blks t_min_floor tau =
     (Finite (case t_min_floor of Some m \<Rightarrow> m | None \<Rightarrow> 0) \<le> tau
      \<and> list_all (\<lambda>blk. Finite (t_min blk) \<le> tau
                         \<and> \<not> inside_interval (a_interval blk) tau
                         \<and> \<not> inside_interval (b_interval blk) tau) blks)"

definition first_accepted :: "Block list \<Rightarrow> real option \<Rightarrow> nat \<Rightarrow> bool" where
  "first_accepted blks t_min_floor i =
     (i < 3 * length blks
      \<and> accepted blks t_min_floor (possible_t_syncs blks ! i)
      \<and> list_all (\<lambda>k. accepted blks t_min_floor (possible_t_syncs blks ! k) \<longrightarrow>
                        possible_t_syncs blks ! i < possible_t_syncs blks ! k
                        \<or> (possible_t_syncs blks ! i = possible_t_syncs blks ! k \<and> i \<le> k))
           [0..<3 * length blks])"

text \<open>
  A block as \<^verbatim>\<open>Step1\<close> finalises it (specification, sections 3 and 4.4): \<open>t_min\<close> is the
  duration of the checked profile \<open>p_min\<close>, hence not negative, and it is a feasible
  duration, hence not strictly inside a forbidden interval of the block.
\<close>

definition feasible_t_min :: "Block \<Rightarrow> bool" where
  "feasible_t_min blk =
     (0 \<le> t_min blk
      \<and> \<not> inside_interval (a_interval blk) (Finite (t_min blk))
      \<and> \<not> inside_interval (b_interval blk) (Finite (t_min blk)))"

text \<open>
  A block without forbidden intervals, and a block with the minimum duration 3 and the
  forbidden interval \<open>a = (3, 12)\<close>.
\<close>

definition block_plain :: Block where
  "block_plain =
     \<lparr>t_min = 3, p_min = check_example_done, a_interval = None, b_interval = None,
      p_a = None, p_b = None\<rparr>"

definition block_gap :: Block where
  "block_gap =
     \<lparr>t_min = 3, p_min = check_example_done, a_interval = Some \<lparr>left = 3, right = 12\<rparr>,
      b_interval = None, p_a = Some (check_example_done\<lparr>limits := VEL\<rparr>), p_b = None\<rparr>"

section \<open>Concrete solvers and states of the orchestrator\<close>

text \<open>
  Solvers that find no brake segments, answer every \<^verbatim>\<open>Step1\<close> query with \<open>block_plain\<close>
  and fail every \<^verbatim>\<open>Step2\<close> query; the initial contents of the local arrays for one axis;
  an input with a velocity limit of zero; and the state and output after one cycle of
  \<open>ruckig_example\<close>.
\<close>

definition solvers_plain :: Solvers where
  "solvers_plain =
     \<lparr>get_brake_trajectory = (\<lambda>v0 a0 vMax aMax jMax tb jb. ([0, 0], [0, 0])),
      step1_get_profile = (\<lambda>p0 v0 a0 pf vf af vMax aMax jMax prof. Some block_plain),
      step2_get_profile = (\<lambda>tf' p0 v0 a0 pf vf af vMax aMax jMax prof. None)\<rparr>"

definition locals_one :: Planning where
  "locals_one =
     \<lparr>plan_profiles = [], blocks = [block_gap], p0s = [7], v0s = [7], a0s = [7],
      plan_output = output_example\<rparr>"

definition input_invalid :: InputParameter where
  "input_invalid = input_example\<lparr>max_velocity := [0]\<rparr>"

definition output_second :: OutputParameter where
  "output_second =
     output_example\<lparr>new_position := [1 / 6000000], new_velocity := [1 / 20000],
       new_acceleration := [1 / 100]\<rparr>"

definition ruckig_second :: Ruckig where
  "ruckig_second =
     ruckig_example\<lparr>t_clock := 1 / 100,
       current_input := input_example\<lparr>current_position := [1 / 6000000],
         current_velocity := [1 / 20000], current_acceleration := [1 / 100]\<rparr>\<rparr>"

section \<open>Notions used in the statements about planning failures\<close>

text \<open>
  \<open>step1_fails\<close>: \<^verbatim>\<open>Step1\<close> finds no profile for the axis, started from the state after the
  brake segments as line 284 passes it. \<open>step2_fails\<close>: \<^verbatim>\<open>Step2\<close> finds no profile of the
  synchronised duration for the axis (line 312). \<open>step1_result\<close> is the outcome of the
  first loop of \<open>calculate\<close> when \<open>update\<close> calls it.
\<close>

definition step1_fails :: "Solvers \<Rightarrow> InputParameter \<Rightarrow> Profile \<Rightarrow> nat \<Rightarrow> bool" where
  "step1_fails sv input prof0 dof =
     (case brake_profile sv input dof prof0 of
        (prof, p0, v0, a0) \<Rightarrow>
          step1_get_profile sv p0 v0 a0 (target_position input ! dof) (target_velocity input ! dof)
            (target_acceleration input ! dof) (max_velocity input ! dof)
            (max_acceleration input ! dof) (max_jerk input ! dof) prof = None)"

definition step2_fails :: "Solvers \<Rightarrow> InputParameter \<Rightarrow> ext_time \<Rightarrow> Planning \<Rightarrow> nat \<Rightarrow> bool" where
  "step2_fails sv input tsync pl dof =
     (step2_get_profile sv (t_profile tsync (plan_profiles pl ! dof))
        (p0s pl ! dof) (v0s pl ! dof) (a0s pl ! dof)
        (target_position input ! dof) (target_velocity input ! dof) (target_acceleration input ! dof)
        (max_velocity input ! dof) (max_acceleration input ! dof) (max_jerk input ! dof)
        (plan_profiles pl ! dof) = None)"

definition step1_result :: "Solvers \<Rightarrow> nat \<Rightarrow> Planning \<Rightarrow> InputParameter \<Rightarrow> Ruckig \<Rightarrow> OutputParameter \<Rightarrow> exn + Planning" where
  "step1_result sv DOFs locals0 input r out =
     step1_loop sv input [0..<DOFs]
       (locals0\<lparr>plan_profiles := profiles r, plan_output := out\<lparr>new_calculation := False\<rparr>\<rparr>)"

text \<open>
  Solvers whose \<^verbatim>\<open>Step1\<close> always fails; solvers whose \<^verbatim>\<open>Step1\<close> answers with two forbidden
  intervals; and solvers for the rest-to-rest scenario of the specification (one axis
  from 0 to 1 with all limits 1 and \<open>minimum_duration = 10\<close>, \<open>input_floor\<close>), whose \<^verbatim>\<open>Step1\<close>
  answers with the minimum duration \<open>3.175\<close> and no forbidden interval. \<open>ruckig_fresh\<close>
  caches another input, so that every input below triggers a new plan.
\<close>

definition solvers_no_step1 :: Solvers where
  "solvers_no_step1 =
     solvers_plain\<lparr>step1_get_profile := (\<lambda>p0 v0 a0 pf vf af vMax aMax jMax prof. None)\<rparr>"

definition block_two_gaps :: Block where
  "block_two_gaps = block_gap\<lparr>b_interval := Some \<lparr>left = 13, right = 20\<rparr>, p_b := Some check_example_done\<rparr>"

definition solvers_gaps :: Solvers where
  "solvers_gaps =
     solvers_plain\<lparr>step1_get_profile := (\<lambda>p0 v0 a0 pf vf af vMax aMax jMax prof. Some block_two_gaps)\<rparr>"

definition block_rest :: Block where
  "block_rest = block_plain\<lparr>t_min := 3175 / 1000\<rparr>"

definition solvers_rest :: Solvers where
  "solvers_rest =
     solvers_plain\<lparr>step1_get_profile := (\<lambda>p0 v0 a0 pf vf af vMax aMax jMax prof. Some block_rest)\<rparr>"

definition ruckig_fresh :: Ruckig where
  "ruckig_fresh = ruckig_example\<lparr>current_input := input_example\<lparr>target_position := [0]\<rparr>\<rparr>"

definition input_floor_100 :: InputParameter where
  "input_floor_100 = input_example\<lparr>minimum_duration := Some 100\<rparr>"

definition input_floor :: InputParameter where
  "input_floor =
     \<lparr>current_position = [0], current_velocity = [0], current_acceleration = [0],
      target_position = [1], target_velocity = [0], target_acceleration = [0],
      max_velocity = [1], max_acceleration = [1], max_jerk = [1],
      enabled = [True], minimum_duration = Some 10\<rparr>"

definition input_two :: InputParameter where
  "input_two = input_disabled\<lparr>enabled := [True, True], current_velocity := [0, 0]\<rparr>"

definition locals_two :: Planning where
  "locals_two =
     \<lparr>plan_profiles = [], blocks = [block_gap, block_gap], p0s = [7, 7], v0s = [7, 7], a0s = [7, 7],
      plan_output = output_two\<rparr>"

section \<open>Properties of \<^verbatim>\<open>Profile::check\<close>\<close>

lemma t_sum_loop_frame:
  "t_sum_loop ixs pr = (b, pr') \<Longrightarrow> \<exists>ts. pr' = pr\<lparr>t_sum := ts\<rparr> \<and> length ts = length (t_sum pr)"
proof (induction ixs arbitrary: pr)
  case Nil
  then show ?case by (auto intro: exI[of _ "t_sum pr"])
next
  case (Cons i rest)
  then show ?case by (fastforce split: if_splits intro: exI[of _ "t_sum pr"])
qed

lemma t_sum_loop_fst:
  "fst (t_sum_loop ixs pr) \<longleftrightarrow> (\<forall>i\<in>set ixs. 0 \<le> t pr ! (i + 1))"
  by (induction ixs arbitrary: pr) (auto simp: not_less)

lemma t_sum_loop_rec:
  "n < length (t_sum pr) \<Longrightarrow> t_sum_loop [k..<n] pr = (True, pr') \<Longrightarrow>
     (\<forall>m\<le>k. t_sum pr' ! m = t_sum pr ! m) \<and>
     (\<forall>i. k \<le> i \<and> i < n \<longrightarrow> t_sum pr' ! (i + 1) = t_sum pr' ! i + t pr ! (i + 1))"
proof (induction "n - k" arbitrary: k pr)
  case 0
  then show ?case by simp
next
  case (Suc d)
  then have kn: "k < n" by simp
  let ?pr1 = "pr\<lparr>t_sum := (t_sum pr)[k + 1 := t_sum pr ! k + t pr ! (k + 1)]\<rparr>"
  from Suc.prems(2) kn have nn: "\<not> t pr ! (k + 1) < 0" and run: "t_sum_loop [Suc k..<n] ?pr1 = (True, pr')"
    by (auto simp: upt_conv_Cons split: if_splits)
  have d: "d = n - Suc k" using Suc.hyps(2) by simp
  have len: "n < length (t_sum ?pr1)" using Suc.prems(1) by simp
  note IH = Suc.hyps(1)[OF d len run]
  have low: "\<forall>m\<le>k. t_sum pr' ! m = t_sum pr ! m"
    using IH by simp
  have atk: "t_sum pr' ! (k + 1) = t_sum pr ! k + t pr ! (k + 1)"
    using IH kn Suc.prems(1) by simp
  show ?case
  proof (intro conjI allI impI)
    fix m assume "m \<le> k" then show "t_sum pr' ! m = t_sum pr ! m" using low by simp
  next
    fix i assume i: "k \<le> i \<and> i < n"
    show "t_sum pr' ! (i + 1) = t_sum pr' ! i + t pr ! (i + 1)"
    proof (cases "i = k")
      case True
      then show ?thesis using atk low by simp
    next
      case False
      then have "Suc k \<le> i \<and> i < n" using i by simp
      then show ?thesis using IH by simp
    qed
  qed
qed

lemma integrate_step_fields:
  "t (integrate_step i pr) = t pr" "j (integrate_step i pr) = j pr" "t_sum (integrate_step i pr) = t_sum pr"
  "a (integrate_step i pr) = (a pr)[i + 1 := a pr ! i + t pr ! i * j pr ! i]"
  "v (integrate_step i pr) = (v pr)[i + 1 := v pr ! i + t pr ! i * (a pr ! i + t pr ! i * j pr ! i / 2)]"
  "p (integrate_step i pr) = (p pr)[i + 1 := p pr ! i + t pr ! i * (v pr ! i + t pr ! i * (a pr ! i / 2 + t pr ! i * j pr ! i / 6))]"
  by (simp_all add: integrate_step_def Let_def)

lemma integrate_loop_frame:
  "t (integrate_loop ixs pr) = t pr \<and> j (integrate_loop ixs pr) = j pr \<and> t_sum (integrate_loop ixs pr) = t_sum pr
   \<and> length (a (integrate_loop ixs pr)) = length (a pr) \<and> length (v (integrate_loop ixs pr)) = length (v pr)
   \<and> length (p (integrate_loop ixs pr)) = length (p pr)"
  by (induction ixs arbitrary: pr) (simp_all add: integrate_step_fields)

lemma integrate_loop_rec:
  "n < length (a pr) \<Longrightarrow> n < length (v pr) \<Longrightarrow> n < length (p pr) \<Longrightarrow> pr' = integrate_loop [k..<n] pr \<Longrightarrow>
     (\<forall>m\<le>k. a pr' ! m = a pr ! m \<and> v pr' ! m = v pr ! m \<and> p pr' ! m = p pr ! m) \<and>
     (\<forall>i. k \<le> i \<and> i < n \<longrightarrow>
        a pr' ! (i + 1) = a pr' ! i + t pr ! i * j pr ! i \<and>
        v pr' ! (i + 1) = v pr' ! i + t pr ! i * (a pr' ! i + t pr ! i * j pr ! i / 2) \<and>
        p pr' ! (i + 1) = p pr' ! i + t pr ! i * (v pr' ! i + t pr ! i * (a pr' ! i / 2 + t pr ! i * j pr ! i / 6)))"
proof (induction "n - k" arbitrary: k pr)
  case 0
  then show ?case by simp
next
  case (Suc d)
  then have kn: "k < n" by simp
  let ?pr1 = "integrate_step k pr"
  have run: "pr' = integrate_loop [Suc k..<n] ?pr1" using Suc.prems(4) kn by (simp add: upt_conv_Cons)
  have d: "d = n - Suc k" using Suc.hyps(2) by simp
  have len: "n < length (a ?pr1)" "n < length (v ?pr1)" "n < length (p ?pr1)"
    using Suc.prems(1-3) by (simp_all add: integrate_step_fields)
  note IH = Suc.hyps(1)[OF d len run]
  have low: "\<forall>m\<le>k. a pr' ! m = a pr ! m \<and> v pr' ! m = v pr ! m \<and> p pr' ! m = p pr ! m"
    using IH by (simp add: integrate_step_fields)
  have atk: "a pr' ! (k + 1) = a pr ! k + t pr ! k * j pr ! k"
    "v pr' ! (k + 1) = v pr ! k + t pr ! k * (a pr ! k + t pr ! k * j pr ! k / 2)"
    "p pr' ! (k + 1) = p pr ! k + t pr ! k * (v pr ! k + t pr ! k * (a pr ! k / 2 + t pr ! k * j pr ! k / 6))"
    using IH kn Suc.prems(1-3) by (simp_all add: integrate_step_fields)
  show ?case
  proof (intro conjI allI impI)
    fix m assume "m \<le> k" 
    then show "a pr' ! m = a pr ! m" "v pr' ! m = v pr ! m" "p pr' ! m = p pr ! m" using low by simp_all
  next
    fix i assume i: "k \<le> i \<and> i < n"
    have "a pr' ! (i + 1) = a pr' ! i + t pr ! i * j pr ! i \<and>
        v pr' ! (i + 1) = v pr' ! i + t pr ! i * (a pr' ! i + t pr ! i * j pr ! i / 2) \<and>
        p pr' ! (i + 1) = p pr' ! i + t pr ! i * (v pr' ! i + t pr ! i * (a pr' ! i / 2 + t pr ! i * j pr ! i / 6))"
    proof (cases "i = k")
      case True
      then show ?thesis using atk low by simp
    next
      case False
      then have "Suc k \<le> i \<and> i < n" using i by simp
      then show ?thesis using IH by (simp add: integrate_step_fields)
    qed
    then show "a pr' ! (i + 1) = a pr' ! i + t pr ! i * j pr ! i"
        "v pr' ! (i + 1) = v pr' ! i + t pr ! i * (a pr' ! i + t pr ! i * j pr ! i / 2)"
        "p pr' ! (i + 1) = p pr' ! i + t pr ! i * (v pr' ! i + t pr ! i * (a pr' ! i / 2 + t pr ! i * j pr ! i / 6))"
      by simp_all
  qed
qed


lemma length8E:
  assumes "length xs = 8"
  obtains x0 x1 x2 x3 x4 x5 x6 x7 where "xs = [x0, x1, x2, x3, x4, x5, x6, x7]"
  using assms by (auto simp: length_Suc_conv eval_nat_numeral)

lemma list_all_drop3:
  assumes "length xs = 8"
  shows "list_all P (drop 3 xs) = (\<forall>i\<in>{3..7}. P (xs ! i))"
proof -
  obtain x0 x1 x2 x3 x4 x5 x6 x7 where X: "xs = [x0, x1, x2, x3, x4, x5, x6, x7]"
    using assms by (rule length8E)
  have "{3..7::nat} = {3, 4, 5, 6, 7}" by auto
  then show ?thesis by (simp add: X)
qed

lemma list_all_drop2:
  assumes "length xs = 8"
  shows "list_all P (drop 2 xs) = (\<forall>i\<in>{2..7}. P (xs ! i))"
proof -
  obtain x0 x1 x2 x3 x4 x5 x6 x7 where X: "xs = [x0, x1, x2, x3, x4, x5, x6, x7]"
    using assms by (rule length8E)
  have "{2..7::nat} = {2, 3, 4, 5, 6, 7}" by auto
  then show ?thesis by (simp add: X)
qed

lemma prefix_sums:
  fixes ts xs :: "real list"
  assumes "ts ! 0 = xs ! 0" and "\<forall>i<n. ts ! (i + 1) = ts ! i + xs ! (i + 1)" and "n < length xs"
  shows "k \<le> n \<Longrightarrow> ts ! k = sum_list (take (k + 1) xs)"
proof (induction k)
  case 0
  have "take 1 xs = [xs ! 0]" using assms(3) by (cases xs) auto
  then show ?case using assms(1) by simp
next
  case (Suc k)
  then have k: "k < n" "k \<le> n" by simp_all
  have "Suc k < length xs" using Suc.prems assms(3) by simp
  then have "take (Suc k + 1) xs = take (k + 1) xs @ [xs ! (k + 1)]"
    using take_Suc_conv_app_nth[of "Suc k" xs] by simp
  then show ?case using Suc.IH[OF k(2)] assms(2) k(1) by simp
qed

lemma integrate_horner:
  "integrate tm p0 v0 a0 jk =
     (p0 + tm * (v0 + tm * (a0 / 2 + tm * jk / 6)), v0 + tm * (a0 + tm * jk / 2), a0 + tm * jk)"
  by (simp add: integrate_def power2_eq_square power3_eq_cube algebra_simps)

lemma check_cases:
  "check th pf vf af jf vMax aMax pr =
     (let pr2 = pr\<lparr>j := jerk_pattern th jf, t_sum := (t_sum pr)[0 := t pr ! 0]\<rparr>
      in if t pr ! 0 < 0 then (False, pr2)
         else if \<not> fst (t_sum_loop [0..<6] pr2) then (False, snd (t_sum_loop [0..<6] pr2))
         else (let pr4 = integrate_loop [0..<7] (snd (t_sum_loop [0..<6] pr2))
               in (list_all (\<lambda>vm. \<bar>vm\<bar> < \<bar>vMax\<bar> + 1 / 10 ^ 9) (drop 3 (v pr4))
                        \<and> list_all (\<lambda>am. \<bar>am\<bar> < \<bar>aMax\<bar> + 1 / 10 ^ 9) (drop 2 (a pr4))
                        \<and> \<bar>p pr4 ! 7 - pf\<bar> < 1 / 10 ^ 8 \<and> \<bar>v pr4 ! 7 - vf\<bar> < 1 / 10 ^ 8
                        \<and> \<bar>a pr4 ! 7 - af\<bar> < 1 / 10 ^ 8, pr4)))"
  by (simp add: check_def Let_def split: prod.splits bool.splits)

lemma all_nonneg_split:
  "(\<forall>i<7. 0 \<le> (xs::real list) ! i) \<longleftrightarrow> \<not> xs ! 0 < 0 \<and> (\<forall>i\<in>set [0..<6]. 0 \<le> xs ! (i + 1))"
proof
  assume L: "\<forall>i<7. 0 \<le> xs ! i"
  then have "0 \<le> xs ! 0" by simp
  moreover have "\<forall>i\<in>set [0..<6]. 0 \<le> xs ! (i + 1)" using L by simp
  ultimately show "\<not> xs ! 0 < 0 \<and> (\<forall>i\<in>set [0..<6]. 0 \<le> xs ! (i + 1))" by simp
next
  assume R: "\<not> xs ! 0 < 0 \<and> (\<forall>i\<in>set [0..<6]. 0 \<le> xs ! (i + 1))"
  show "\<forall>i<7. 0 \<le> xs ! i"
  proof (intro allI impI)
    fix i :: nat assume "i < 7"
    show "0 \<le> xs ! i"
    proof (cases i)
      case 0
      then show ?thesis using R by simp
    next
      case (Suc k)
      then have "k \<in> set [0..<6]" using \<open>i < 7\<close> by simp
      then show ?thesis using R Suc by auto
    qed
  qed
qed

text \<open>
  C5 (amended). Let the arrays of the profile have their declared sizes and let \<open>check\<close>
  return \<open>ok\<close> and leave the profile \<open>pr'\<close>. Then \<open>j\<close> holds the jerk pattern of the teeth
  and \<open>t\<close> is untouched. The verdict \<open>ok\<close> is true if and only if every duration is
  non-negative, \<open>\<bar>v[i]\<bar> < \<bar>vMax\<bar> + 1e-9\<close> for \<open>i\<close> from 3 to 7, \<open>\<bar>a[i]\<bar> < \<bar>aMax\<bar> + 1e-9\<close> for \<open>i\<close>
  from 2 to 7, and the end state is within \<open>1e-8\<close> of \<open>(pf, vf, af)\<close>: the limits enter by
  their absolute values. When every duration is non-negative, \<open>t_sum\<close> holds the prefix
  sums of \<open>t\<close> and \<open>a, v, p\<close> at \<open>1..7\<close> are the constant-jerk integration from the entries at
  0; when some duration is negative, \<open>check\<close> returns false before the integration and
  \<open>a, v, p\<close> are left as they were. The overload with a duration also requires
  \<open>\<bar>t_sum[6] - tf\<bar> < 1e-8\<close>, and the overload with a jerk limit also requires
  \<open>\<bar>jf\<bar> < \<bar>jMax\<bar> + 1e-12\<close>.
\<close>

theorem check_spec:
  assumes len: "length (t pr) = 7" "length (t_sum pr) = 7" "length (a pr) = 8" "length (v pr) = 8"
      "length (p pr) = 8"
    and res: "check th pf vf af jf vMax aMax pr = (ok, pr')"
  shows "j pr' = jerk_pattern th jf \<and> t pr' = t pr
    \<and> (ok \<longleftrightarrow> (\<forall>i<7. 0 \<le> t pr ! i)
              \<and> (\<forall>i\<in>{3..7}. \<bar>v pr' ! i\<bar> < \<bar>vMax\<bar> + 1 / 10 ^ 9)
              \<and> (\<forall>i\<in>{2..7}. \<bar>a pr' ! i\<bar> < \<bar>aMax\<bar> + 1 / 10 ^ 9)
              \<and> \<bar>p pr' ! 7 - pf\<bar> < 1 / 10 ^ 8 \<and> \<bar>v pr' ! 7 - vf\<bar> < 1 / 10 ^ 8 \<and> \<bar>a pr' ! 7 - af\<bar> < 1 / 10 ^ 8)
    \<and> ((\<forall>i<7. 0 \<le> t pr ! i) \<longrightarrow>
          (\<forall>k<7. t_sum pr' ! k = sum_list (take (k + 1) (t pr)))
          \<and> a pr' ! 0 = a pr ! 0 \<and> v pr' ! 0 = v pr ! 0 \<and> p pr' ! 0 = p pr ! 0
          \<and> (\<forall>i<7. (p pr' ! (i + 1), v pr' ! (i + 1), a pr' ! (i + 1)) =
                      integrate (t pr ! i) (p pr' ! i) (v pr' ! i) (a pr' ! i) (j pr' ! i)))
    \<and> (\<not> (\<forall>i<7. 0 \<le> t pr ! i) \<longrightarrow> a pr' = a pr \<and> v pr' = v pr \<and> p pr' = p pr)
    \<and> (fst (check_tf th tf' pf vf af jf vMax aMax pr) \<longleftrightarrow> ok \<and> \<bar>t_sum pr' ! 6 - tf'\<bar> < 1 / 10 ^ 8)
    \<and> (fst (check_tf_jMax th tf' pf vf af jf vMax aMax jMax pr) \<longleftrightarrow>
          \<bar>jf\<bar> < \<bar>jMax\<bar> + 1 / 10 ^ 12 \<and> ok \<and> \<bar>t_sum pr' ! 6 - tf'\<bar> < 1 / 10 ^ 8)"
proof -
  define pr2 where "pr2 = pr\<lparr>j := jerk_pattern th jf, t_sum := (t_sum pr)[0 := t pr ! 0]\<rparr>"
  obtain b pr3 where loop: "t_sum_loop [0..<6] pr2 = (b, pr3)" by (cases "t_sum_loop [0..<6] pr2")
  obtain ts where pr3: "pr3 = pr2\<lparr>t_sum := ts\<rparr>" and ts: "length ts = length (t_sum pr2)"
    using t_sum_loop_frame[OF loop] by blast
  have b: "b \<longleftrightarrow> (\<forall>i\<in>set [0..<6]. 0 \<le> t pr ! (i + 1))"
    using t_sum_loop_fst[of "[0..<6]" pr2] loop by (simp add: pr2_def)
  have nn: "(\<forall>i<7. 0 \<le> t pr ! i) \<longleftrightarrow> \<not> t pr ! 0 < 0 \<and> b"
    unfolding b by (rule all_nonneg_split)
  define pr4 where "pr4 = integrate_loop [0..<7] pr3"
  have chk: "check th pf vf af jf vMax aMax pr =
     (if t pr ! 0 < 0 then (False, pr2)
      else if \<not> b then (False, pr3)
      else (list_all (\<lambda>vm. \<bar>vm\<bar> < \<bar>vMax\<bar> + 1 / 10 ^ 9) (drop 3 (v pr4))
                        \<and> list_all (\<lambda>am. \<bar>am\<bar> < \<bar>aMax\<bar> + 1 / 10 ^ 9) (drop 2 (a pr4))
                        \<and> \<bar>p pr4 ! 7 - pf\<bar> < 1 / 10 ^ 8 \<and> \<bar>v pr4 ! 7 - vf\<bar> < 1 / 10 ^ 8
                        \<and> \<bar>a pr4 ! 7 - af\<bar> < 1 / 10 ^ 8, pr4))"
    unfolding check_cases pr2_def[symmetric] Let_def loop by (simp add: pr4_def)
  have frame4: "t pr4 = t pr" "j pr4 = jerk_pattern th jf" "t_sum pr4 = ts"
    "length (a pr4) = 8" "length (v pr4) = 8" "length (p pr4) = 8"
    using integrate_loop_frame[of "[0..<7]" pr3] len by (simp_all add: pr4_def pr3 pr2_def)
  have J: "j pr' = jerk_pattern th jf" and T: "t pr' = t pr"
    using res frame4(1,2) unfolding chk by (auto simp: pr3 pr2_def split: if_splits)
  have early: "\<not> (\<forall>i<7. 0 \<le> t pr ! i) \<longrightarrow> \<not> ok \<and> a pr' = a pr \<and> v pr' = v pr \<and> p pr' = p pr"
    using res unfolding chk nn by (auto simp: pr3 pr2_def split: if_splits)
  have sums: "\<forall>k<7. t_sum pr' ! k = sum_list (take (k + 1) (t pr))"
    and start_a: "a pr' ! 0 = a pr ! 0" and start_v: "v pr' ! 0 = v pr ! 0" and start_p: "p pr' ! 0 = p pr ! 0"
    and steps: "\<forall>i<7. (p pr' ! (i + 1), v pr' ! (i + 1), a pr' ! (i + 1)) =
                      integrate (t pr ! i) (p pr' ! i) (v pr' ! i) (a pr' ! i) (j pr' ! i)"
    and okk: "ok \<longleftrightarrow> (\<forall>i\<in>{3..7}. \<bar>v pr' ! i\<bar> < \<bar>vMax\<bar> + 1 / 10 ^ 9)
              \<and> (\<forall>i\<in>{2..7}. \<bar>a pr' ! i\<bar> < \<bar>aMax\<bar> + 1 / 10 ^ 9)
              \<and> \<bar>p pr' ! 7 - pf\<bar> < 1 / 10 ^ 8 \<and> \<bar>v pr' ! 7 - vf\<bar> < 1 / 10 ^ 8 \<and> \<bar>a pr' ! 7 - af\<bar> < 1 / 10 ^ 8"
    if all: "\<forall>i<7. 0 \<le> t pr ! i"
  proof -
    from all nn have t0: "\<not> t pr ! 0 < 0" and bT: "b" by simp_all
    have pr': "pr' = pr4"
      and ok: "ok = (list_all (\<lambda>vm. \<bar>vm\<bar> < \<bar>vMax\<bar> + 1 / 10 ^ 9) (drop 3 (v pr4))
                        \<and> list_all (\<lambda>am. \<bar>am\<bar> < \<bar>aMax\<bar> + 1 / 10 ^ 9) (drop 2 (a pr4))
                        \<and> \<bar>p pr4 ! 7 - pf\<bar> < 1 / 10 ^ 8 \<and> \<bar>v pr4 ! 7 - vf\<bar> < 1 / 10 ^ 8
                        \<and> \<bar>a pr4 ! 7 - af\<bar> < 1 / 10 ^ 8)"
      using res t0 bT unfolding chk by auto
    have loopT: "t_sum_loop [0..<6] pr2 = (True, pr3)" using loop bT by simp
    have l2: "6 < length (t_sum pr2)" using len by (simp add: pr2_def)
    note R = t_sum_loop_rec[OF l2 loopT]
    have ts0: "ts ! 0 = t pr ! 0" using R len by (simp add: pr3 pr2_def)
    have tsrec: "\<forall>i<6. ts ! (i + 1) = ts ! i + t pr ! (i + 1)" using R by (simp add: pr3 pr2_def)
    show "\<forall>k<7. t_sum pr' ! k = sum_list (take (k + 1) (t pr))"
    proof (intro allI impI)
      fix k :: nat assume "k < 7"
      then have "k \<le> 6" by simp
      then show "t_sum pr' ! k = sum_list (take (k + 1) (t pr))"
        using prefix_sums[OF ts0 tsrec, of k] len(1) by (simp add: pr' frame4)
    qed
    have l3: "7 < length (a pr3)" "7 < length (v pr3)" "7 < length (p pr3)"
      using len by (simp_all add: pr3 pr2_def)
    note I = integrate_loop_rec[OF l3 pr4_def]
    show "a pr' ! 0 = a pr ! 0" "v pr' ! 0 = v pr ! 0" "p pr' ! 0 = p pr ! 0"
      using I by (simp_all add: pr' pr3 pr2_def)
    show "\<forall>i<7. (p pr' ! (i + 1), v pr' ! (i + 1), a pr' ! (i + 1)) =
                      integrate (t pr ! i) (p pr' ! i) (v pr' ! i) (a pr' ! i) (j pr' ! i)"
      using I unfolding integrate_horner by (simp add: pr' pr3 pr2_def frame4)
    show "ok \<longleftrightarrow> (\<forall>i\<in>{3..7}. \<bar>v pr' ! i\<bar> < \<bar>vMax\<bar> + 1 / 10 ^ 9)
              \<and> (\<forall>i\<in>{2..7}. \<bar>a pr' ! i\<bar> < \<bar>aMax\<bar> + 1 / 10 ^ 9)
              \<and> \<bar>p pr' ! 7 - pf\<bar> < 1 / 10 ^ 8 \<and> \<bar>v pr' ! 7 - vf\<bar> < 1 / 10 ^ 8 \<and> \<bar>a pr' ! 7 - af\<bar> < 1 / 10 ^ 8"
      unfolding ok pr' list_all_drop3[OF frame4(5)] list_all_drop2[OF frame4(4)] by (rule refl)
  qed
  have okiff: "ok \<longleftrightarrow> (\<forall>i<7. 0 \<le> t pr ! i)
              \<and> (\<forall>i\<in>{3..7}. \<bar>v pr' ! i\<bar> < \<bar>vMax\<bar> + 1 / 10 ^ 9)
              \<and> (\<forall>i\<in>{2..7}. \<bar>a pr' ! i\<bar> < \<bar>aMax\<bar> + 1 / 10 ^ 9)
              \<and> \<bar>p pr' ! 7 - pf\<bar> < 1 / 10 ^ 8 \<and> \<bar>v pr' ! 7 - vf\<bar> < 1 / 10 ^ 8 \<and> \<bar>a pr' ! 7 - af\<bar> < 1 / 10 ^ 8"
  proof -
    define N where "N \<longleftrightarrow> (\<forall>i<7. 0 \<le> t pr ! i)"
    define Q where "Q \<longleftrightarrow> (\<forall>i\<in>{3..7}. \<bar>v pr' ! i\<bar> < \<bar>vMax\<bar> + 1 / 10 ^ 9)
              \<and> (\<forall>i\<in>{2..7}. \<bar>a pr' ! i\<bar> < \<bar>aMax\<bar> + 1 / 10 ^ 9)
              \<and> \<bar>p pr' ! 7 - pf\<bar> < 1 / 10 ^ 8 \<and> \<bar>v pr' ! 7 - vf\<bar> < 1 / 10 ^ 8 \<and> \<bar>a pr' ! 7 - af\<bar> < 1 / 10 ^ 8"
    have 1: "N \<Longrightarrow> ok \<longleftrightarrow> Q" using okk unfolding N_def Q_def .
    have 2: "\<not> N \<Longrightarrow> \<not> ok" using early unfolding N_def by (elim impE conjE)
    have "ok \<longleftrightarrow> N \<and> Q" using 1 2 by blast
    then show ?thesis unfolding N_def Q_def .
  qed
  have fullimp: "(\<forall>i<7. 0 \<le> t pr ! i) \<longrightarrow>
          (\<forall>k<7. t_sum pr' ! k = sum_list (take (k + 1) (t pr)))
          \<and> a pr' ! 0 = a pr ! 0 \<and> v pr' ! 0 = v pr ! 0 \<and> p pr' ! 0 = p pr ! 0
          \<and> (\<forall>i<7. (p pr' ! (i + 1), v pr' ! (i + 1), a pr' ! (i + 1)) =
                      integrate (t pr ! i) (p pr' ! i) (v pr' ! i) (a pr' ! i) (j pr' ! i))"
    by (intro impI conjI) (erule sums start_a start_v start_p steps)+
  have earlyimp: "\<not> (\<forall>i<7. 0 \<le> t pr ! i) \<longrightarrow> a pr' = a pr \<and> v pr' = v pr \<and> p pr' = p pr"
  proof
    assume "\<not> (\<forall>i<7. 0 \<le> t pr ! i)"
    with early show "a pr' = a pr \<and> v pr' = v pr \<and> p pr' = p pr" by simp
  qed
  have c_tf: "fst (check_tf th tf' pf vf af jf vMax aMax pr) \<longleftrightarrow> ok \<and> \<bar>t_sum pr' ! 6 - tf'\<bar> < 1 / 10 ^ 8"
    by (simp add: check_tf_def res)
  have c_j: "fst (check_tf_jMax th tf' pf vf af jf vMax aMax jMax pr) \<longleftrightarrow>
          \<bar>jf\<bar> < \<bar>jMax\<bar> + 1 / 10 ^ 12 \<and> ok \<and> \<bar>t_sum pr' ! 6 - tf'\<bar> < 1 / 10 ^ 8"
    using c_tf by (simp add: check_tf_jMax_def)
  show ?thesis by (intro conjI) (rule J T okiff fullimp earlyimp c_tf c_j)+
qed

lemma upt6: "[0..<6] = [0, 1, 2, 3, 4, 5]" by (simp add: upt_rec)
lemma upt7: "[0..<7] = [0, 1, 2, 3, 4, 5, 6]" by (simp add: upt_rec)

lemma integrate_step_eq:
  "integrate_step i pr =
     pr\<lparr>a := (a pr)[i + 1 := a pr ! i + t pr ! i * j pr ! i],
        v := (v pr)[i + 1 := v pr ! i + t pr ! i * (a pr ! i + t pr ! i * j pr ! i / 2)],
        p := (p pr)[i + 1 := p pr ! i + t pr ! i * (v pr ! i + t pr ! i * (a pr ! i / 2 + t pr ! i * j pr ! i / 6))]\<rparr>"
  by (simp add: integrate_step_def Let_def)

lemma check_staged:
  assumes "\<not> t pr ! 0 < 0"
    and "t_sum_loop [0..<6] (pr\<lparr>j := jerk_pattern th jf, t_sum := (t_sum pr)[0 := t pr ! 0]\<rparr>) = (True, pr3)"
    and "integrate_loop [0..<7] pr3 = pr4"
  shows "check th pf vf af jf vMax aMax pr =
     (list_all (\<lambda>vm. \<bar>vm\<bar> < \<bar>vMax\<bar> + 1 / 10 ^ 9) (drop 3 (v pr4))
      \<and> list_all (\<lambda>am. \<bar>am\<bar> < \<bar>aMax\<bar> + 1 / 10 ^ 9) (drop 2 (a pr4))
      \<and> \<bar>p pr4 ! 7 - pf\<bar> < 1 / 10 ^ 8 \<and> \<bar>v pr4 ! 7 - vf\<bar> < 1 / 10 ^ 8
      \<and> \<bar>a pr4 ! 7 - af\<bar> < 1 / 10 ^ 8, pr4)"
  using assms by (simp add: check_def Let_def)

lemma check_example_run: "check UDDU 2 0 0 1 1 1 check_example = (True, check_example_done)"
proof -
  have 0: "\<not> t check_example ! 0 < 0" by (simp add: check_example_def)
  have 1: "t_sum_loop [0..<6] (check_example\<lparr>j := jerk_pattern UDDU 1,
             t_sum := (t_sum check_example)[0 := t check_example ! 0]\<rparr>)
           = (True, check_example\<lparr>j := [1, 0, - 1, 0, - 1, 0, 1], t_sum := [1, 1, 2, 2, 3, 3, 4]\<rparr>)"
    by (simp add: check_example_def jerk_pattern_def upt6)
  have 2: "integrate_loop [0..<7] (check_example\<lparr>j := [1, 0, - 1, 0, - 1, 0, 1], t_sum := [1, 1, 2, 2, 3, 3, 4]\<rparr>)
           = check_example_done"
    by (simp add: check_example_def check_example_done_def integrate_step_eq upt7)
  show ?thesis unfolding check_staged[OF 0 1 2] by (simp add: check_example_done_def check_example_def)
qed

text \<open>
  The theorem at \<open>check_example\<close> with \<open>jf = 1\<close>, \<open>vMax = aMax = jMax = 1\<close>, the target
  \<open>(2, 0, 0)\<close> and the duration 4: the three overloads accept it.
\<close>

theorem check_spec_witness:
  "length (t check_example) = 7 \<and> length (t_sum check_example) = 7 \<and> length (a check_example) = 8
   \<and> length (v check_example) = 8 \<and> length (p check_example) = 8
   \<and> check UDDU 2 0 0 1 1 1 check_example = (True, check_example_done)
   \<and> j check_example_done = jerk_pattern UDDU 1
   \<and> t_sum check_example_done ! 6 = sum_list (take (6 + 1) (t check_example))
   \<and> (p check_example_done ! (6 + 1), v check_example_done ! (6 + 1), a check_example_done ! (6 + 1)) =
       integrate (t check_example ! 6) (p check_example_done ! 6) (v check_example_done ! 6)
         (a check_example_done ! 6) (j check_example_done ! 6)
   \<and> fst (check_tf UDDU 4 2 0 0 1 1 1 check_example)
   \<and> fst (check_tf_jMax UDDU 4 2 0 0 1 1 1 1 check_example)"
proof -
  have len: "length (t check_example) = 7" "length (t_sum check_example) = 7" "length (a check_example) = 8"
    "length (v check_example) = 8" "length (p check_example) = 8"
    by (simp_all add: check_example_def)
  note S = check_spec[OF len check_example_run, of 4 1]
  have nn: "\<forall>i<7. 0 \<le> t check_example ! i"
    by (simp add: check_example_def eval_nat_numeral All_less_Suc)
  have l6: "(6::nat) < 7" by simp
  note F = mp[OF S[THEN conjunct2, THEN conjunct2, THEN conjunct2, THEN conjunct1] nn]
  note sum6 = F[THEN conjunct1, rule_format, OF l6]
  note step6 = F[THEN conjunct2, THEN conjunct2, THEN conjunct2, THEN conjunct2, rule_format, OF l6]
  have ts: "\<bar>t_sum check_example_done ! 6 - 4\<bar> < (1::real) / 10 ^ 8" by (simp add: check_example_done_def)
  have jm: "\<bar>1::real\<bar> < \<bar>1\<bar> + 1 / 10 ^ 12" by simp
  have ctf: "fst (check_tf UDDU 4 2 0 0 1 1 1 check_example)"
    using S[THEN conjunct2, THEN conjunct2, THEN conjunct2, THEN conjunct2, THEN conjunct2, THEN conjunct1] ts
    by (simp only: simp_thms)
  have cj: "fst (check_tf_jMax UDDU 4 2 0 0 1 1 1 1 check_example)"
    using S[THEN conjunct2, THEN conjunct2, THEN conjunct2, THEN conjunct2, THEN conjunct2, THEN conjunct2] ts jm
    by (simp only: simp_thms)
  show ?thesis
    by (intro conjI) (rule len check_example_run S[THEN conjunct1] sum6 step6 ctf cj)+
qed

text \<open>
  C5 as stated fails in two ways. With \<open>vMax = - 1\<close> the call accepts a profile although
  \<open>\<bar>v[3]\<bar> < vMax + 1e-9\<close> is false; and with \<open>t[0] = - 1\<close> the entry \<open>a[1]\<close> keeps its old
  value 9, which is not \<open>a[0] + t[0] * j[0] = - 1\<close>.
\<close>

theorem check_claim_counterexample:
  "fst (check UDDU 0 0 0 1 (- 1) 1 check_negative_vMax)
   \<and> \<not> \<bar>v (snd (check UDDU 0 0 0 1 (- 1) 1 check_negative_vMax)) ! 3\<bar> < - 1 + 1 / 10 ^ 9
   \<and> a (snd (check UDDU 0 0 0 1 1 1 check_negative_t)) ! 1 = 9
   \<and> a (snd (check UDDU 0 0 0 1 1 1 check_negative_t)) ! 0
       + t check_negative_t ! 0 * j (snd (check UDDU 0 0 0 1 1 1 check_negative_t)) ! 0 = - 1"
proof -
  have 0: "\<not> t check_negative_vMax ! 0 < 0" by (simp add: check_negative_vMax_def check_example_def)
  have 1: "t_sum_loop [0..<6] (check_negative_vMax\<lparr>j := jerk_pattern UDDU 1,
             t_sum := (t_sum check_negative_vMax)[0 := t check_negative_vMax ! 0]\<rparr>)
           = (True, check_negative_vMax\<lparr>j := [1, 0, - 1, 0, - 1, 0, 1]\<rparr>)"
    by (simp add: check_negative_vMax_def check_example_def jerk_pattern_def upt6)
  have 2: "integrate_loop [0..<7] (check_negative_vMax\<lparr>j := [1, 0, - 1, 0, - 1, 0, 1]\<rparr>)
           = check_negative_vMax\<lparr>j := [1, 0, - 1, 0, - 1, 0, 1]\<rparr>"
    by (simp add: check_negative_vMax_def check_example_def integrate_step_eq upt7)
  have A: "check UDDU 0 0 0 1 (- 1) 1 check_negative_vMax = (True, check_negative_vMax\<lparr>j := [1, 0, - 1, 0, - 1, 0, 1]\<rparr>)"
    unfolding check_staged[OF 0 1 2] by (simp add: check_negative_vMax_def check_example_def)
  have B: "check UDDU 0 0 0 1 1 1 check_negative_t
      = (False, check_negative_t\<lparr>j := [1, 0, - 1, 0, - 1, 0, 1], t_sum := [- 1, 0, 0, 0, 0, 0, 0]\<rparr>)"
    by (simp add: check_def check_negative_t_def check_example_def jerk_pattern_def)
  show ?thesis unfolding A B by (simp add: check_negative_vMax_def check_negative_t_def check_example_def)
qed

section \<open>Properties of \<^verbatim>\<open>Ruckig::at_time\<close>\<close>

lemma set_axis_twice: "set_axis (set_axis out dof x) dof y = set_axis out dof y"
  by (cases x; cases y) (simp add: set_axis_def)

lemma at_time_profile_eq: "at_time_profile prof d dof out = set_axis out dof (profile_sample prof d)"
  by (simp add: at_time_profile_def profile_sample_def set_axis_def Let_def)

lemma at_time_axis_eq: "at_time_axis r tm dof out = set_axis out dof (axis_sample r tm dof)"
  by (simp add: at_time_axis_def axis_sample_def at_time_profile_eq set_axis_twice Let_def
      split: option.splits)

lemma set_axis_sel:
  "new_position (set_axis out dof x) = (new_position out)[dof := fst x]"
  "new_velocity (set_axis out dof x) = (new_velocity out)[dof := fst (snd x)]"
  "new_acceleration (set_axis out dof x) = (new_acceleration out)[dof := snd (snd x)]"
  "duration (set_axis out dof x) = duration out"
  "new_calculation (set_axis out dof x) = new_calculation out"
  "independent_min_durations (set_axis out dof x) = independent_min_durations out"
  by (cases x; simp add: set_axis_def)+

lemma fold_set_axis_frame:
  "length (new_position (fold (\<lambda>dof acc. set_axis acc dof (g dof)) ds out)) = length (new_position out)
   \<and> length (new_velocity (fold (\<lambda>dof acc. set_axis acc dof (g dof)) ds out)) = length (new_velocity out)
   \<and> length (new_acceleration (fold (\<lambda>dof acc. set_axis acc dof (g dof)) ds out)) = length (new_acceleration out)
   \<and> duration (fold (\<lambda>dof acc. set_axis acc dof (g dof)) ds out) = duration out
   \<and> new_calculation (fold (\<lambda>dof acc. set_axis acc dof (g dof)) ds out) = new_calculation out
   \<and> independent_min_durations (fold (\<lambda>dof acc. set_axis acc dof (g dof)) ds out) = independent_min_durations out"
  by (induction ds arbitrary: out) (simp_all add: set_axis_sel)

lemma fold_set_axis_nth:
  assumes "n \<le> length (new_position out)" "n \<le> length (new_velocity out)" "n \<le> length (new_acceleration out)"
    and "dof < n"
  shows "new_position (fold (\<lambda>dof acc. set_axis acc dof (g dof)) [0..<n] out) ! dof = fst (g dof)
     \<and> new_velocity (fold (\<lambda>dof acc. set_axis acc dof (g dof)) [0..<n] out) ! dof = fst (snd (g dof))
     \<and> new_acceleration (fold (\<lambda>dof acc. set_axis acc dof (g dof)) [0..<n] out) ! dof = snd (snd (g dof))"
  using assms
proof (induction n)
  case 0
  then show ?case by simp
next
  case (Suc n)
  let ?o = "fold (\<lambda>dof acc. set_axis acc dof (g dof)) [0..<n] out"
  have len: "n < length (new_position ?o)" "n < length (new_velocity ?o)" "n < length (new_acceleration ?o)"
    using Suc.prems fold_set_axis_frame[of g "[0..<n]" out] by simp_all
  show ?case
  proof (cases "dof = n")
    case True
    then show ?thesis using len by (simp add: set_axis_sel)
  next
    case False
    then have "dof < n" using Suc.prems by simp
    then show ?thesis using Suc.IH Suc.prems False by (simp add: set_axis_sel)
  qed
qed

lemma at_time_fold:
  "at_time DOFs r tm out =
     fold (\<lambda>dof acc. set_axis acc dof
       (case tf r of
          Finite tfv \<Rightarrow>
            if tm + delta_time r > tfv
            then integrate (tm - tfv) (target_position (current_input r) ! dof)
                   (target_velocity (current_input r) ! dof) (target_acceleration (current_input r) ! dof) 0
            else axis_sample r tm dof
        | Infinity \<Rightarrow> axis_sample r tm dof)) [0..<DOFs] out"
proof -
  have 1: "at_time_axis r tm = (\<lambda>dof acc. set_axis acc dof (axis_sample r tm dof))"
    by (intro ext) (rule at_time_axis_eq)
  have 2: "at_time_past_end r tm tfv = (\<lambda>dof acc. set_axis acc dof (integrate (tm - tfv) (target_position (current_input r) ! dof)
                   (target_velocity (current_input r) ! dof) (target_acceleration (current_input r) ! dof) 0))" for tfv
    by (intro ext) (simp add: at_time_past_end_def)
  show ?thesis
    by (simp add: at_time_def 1 2 split: ext_time.splits)
qed

text \<open>
  C7. When \<open>time + delta_time > tf\<close>, \<open>at_time\<close> sets the output of every axis to the target
  state integrated with zero jerk over \<open>dt = time - tf\<close>: the position is
  \<open>target_position + target_velocity * dt + target_acceleration * dt\<^sup>2 / 2\<close>, the velocity
  is \<open>target_velocity + target_acceleration * dt\<close> and the acceleration is
  \<open>target_acceleration\<close>, at every such time.
\<close>

theorem at_time_past_end_spec:
  assumes "tf r = Finite tfv" and "tm + delta_time r > tfv"
    and "length (new_position out) = DOFs" "length (new_velocity out) = DOFs" "length (new_acceleration out) = DOFs"
    and "dof < DOFs"
  shows "(new_position (at_time DOFs r tm out) ! dof, new_velocity (at_time DOFs r tm out) ! dof,
          new_acceleration (at_time DOFs r tm out) ! dof) =
           integrate (tm - tfv) (target_position (current_input r) ! dof)
             (target_velocity (current_input r) ! dof) (target_acceleration (current_input r) ! dof) 0
       \<and> new_position (at_time DOFs r tm out) ! dof =
           target_position (current_input r) ! dof + target_velocity (current_input r) ! dof * (tm - tfv)
             + target_acceleration (current_input r) ! dof * (tm - tfv)\<^sup>2 / 2
       \<and> new_velocity (at_time DOFs r tm out) ! dof =
           target_velocity (current_input r) ! dof + target_acceleration (current_input r) ! dof * (tm - tfv)
       \<and> new_acceleration (at_time DOFs r tm out) ! dof = target_acceleration (current_input r) ! dof"
proof -
  have n: "DOFs \<le> length (new_position out)" "DOFs \<le> length (new_velocity out)" "DOFs \<le> length (new_acceleration out)"
    using assms by simp_all
  show ?thesis
    unfolding at_time_fold using fold_set_axis_nth[OF n \<open>dof < DOFs\<close>] assms(1,2)
    by (simp add: integrate_def)
qed

text \<open>
  C10. For an enabled axis, when \<open>time + delta_time \<le> tf\<close> and the time elapsed past the
  brake segments of the axis is at least \<open>t_sum[6]\<close> of its profile, \<open>at_time\<close> outputs the
  stored endpoint \<open>(p[7], v[7], a[7])\<close>.
\<close>

theorem at_time_endpoint_spec:
  assumes "Finite (tm + delta_time r) \<le> tf r"
    and "length (new_position out) = DOFs" "length (new_velocity out) = DOFs" "length (new_acceleration out) = DOFs"
    and "dof < DOFs" and "enabled (current_input r) ! dof"
    and "time_past_brake (profiles r ! dof) tm = Some d" and "t_sum (profiles r ! dof) ! 6 \<le> d"
  shows "new_position (at_time DOFs r tm out) ! dof = p (profiles r ! dof) ! 7
       \<and> new_velocity (at_time DOFs r tm out) ! dof = v (profiles r ! dof) ! 7
       \<and> new_acceleration (at_time DOFs r tm out) ! dof = a (profiles r ! dof) ! 7"
proof -
  have n: "DOFs \<le> length (new_position out)" "DOFs \<le> length (new_velocity out)" "DOFs \<le> length (new_acceleration out)"
    using assms by simp_all
  have s: "axis_sample r tm dof = (p (profiles r ! dof) ! 7, v (profiles r ! dof) ! 7, a (profiles r ! dof) ! 7)"
    using assms(7,8) by (auto simp: axis_sample_def time_past_brake_def profile_sample_def Let_def split: option.splits if_splits)
  show ?thesis
    unfolding at_time_fold using fold_set_axis_nth[OF n \<open>dof < DOFs\<close>] assms(1) s
    by (cases "tf r") (simp_all)
qed

text \<open>The theorem at \<open>ruckig_past_end\<close>, one second after the end of the plan.\<close>

theorem at_time_past_end_witness:
  "tf ruckig_past_end = Finite 4 \<and> 5 + delta_time ruckig_past_end > 4
   \<and> new_position (at_time 1 ruckig_past_end 5 output_example) ! 0 = 9 / 4
   \<and> new_velocity (at_time 1 ruckig_past_end 5 output_example) ! 0 = 1 / 2
   \<and> new_acceleration (at_time 1 ruckig_past_end 5 output_example) ! 0 = 1 / 2"
proof -
  have 1: "tf ruckig_past_end = Finite 4" "5 + delta_time ruckig_past_end > 4"
    "length (new_position output_example) = 1" "length (new_velocity output_example) = 1"
    "length (new_acceleration output_example) = 1" "(0::nat) < 1"
    by (simp_all add: ruckig_past_end_def ruckig_example_def output_example_def)
  from at_time_past_end_spec[OF 1] 1(1,2) show ?thesis
    by (simp add: ruckig_past_end_def ruckig_example_def input_example_def power2_eq_square)
qed

text \<open>The theorem at \<open>ruckig_waiting\<close>, at the time 5 of a plan of ten seconds.\<close>

theorem at_time_endpoint_witness:
  "Finite (5 + delta_time ruckig_waiting) \<le> tf ruckig_waiting
   \<and> enabled (current_input ruckig_waiting) ! 0
   \<and> time_past_brake (profiles ruckig_waiting ! 0) 5 = Some 5
   \<and> t_sum (profiles ruckig_waiting ! 0) ! 6 \<le> 5
   \<and> new_position (at_time 1 ruckig_waiting 5 output_example) ! 0 = 2
   \<and> new_velocity (at_time 1 ruckig_waiting 5 output_example) ! 0 = 0
   \<and> new_acceleration (at_time 1 ruckig_waiting 5 output_example) ! 0 = 0"
proof -
  have 1: "Finite (5 + delta_time ruckig_waiting) \<le> tf ruckig_waiting"
    "length (new_position output_example) = 1" "length (new_velocity output_example) = 1"
    "length (new_acceleration output_example) = 1" "(0::nat) < 1"
    "enabled (current_input ruckig_waiting) ! 0"
    "time_past_brake (profiles ruckig_waiting ! 0) 5 = Some 5"
    "t_sum (profiles ruckig_waiting ! 0) ! 6 \<le> 5"
    by (simp_all add: ruckig_waiting_def ruckig_example_def output_example_def input_example_def
        time_past_brake_def check_example_done_def check_example_def)
  from at_time_endpoint_spec[OF 1] 1 show ?thesis
    by (simp add: ruckig_waiting_def ruckig_example_def check_example_done_def check_example_def)
qed

text \<open>
  C2 does not hold of the source. In \<open>ruckig_disabled\<close> the first axis is disabled, and its
  cached state integrated with zero jerk over one second is \<open>(1, 1, 0)\<close>; \<open>at_time\<close>
  outputs \<open>(1 / 6, 1 / 2, 1)\<close>, the sample of the profile stored for that axis, since
  line 412 is not followed by \<^verbatim>\<open>continue\<close>.
\<close>

theorem at_time_disabled_axis_overwritten:
  "enabled (current_input ruckig_disabled) ! 0 = False
   \<and> Finite (1 + delta_time ruckig_disabled) \<le> tf ruckig_disabled
   \<and> integrate 1 (current_position (current_input ruckig_disabled) ! 0)
        (current_velocity (current_input ruckig_disabled) ! 0)
        (current_acceleration (current_input ruckig_disabled) ! 0) 0 = (1, 1, 0)
   \<and> new_position (at_time 2 ruckig_disabled 1 output_two) ! 0 = 1 / 6
   \<and> new_velocity (at_time 2 ruckig_disabled 1 output_two) ! 0 = 1 / 2
   \<and> new_acceleration (at_time 2 ruckig_disabled 1 output_two) ! 0 = 1"
proof -
  have s: "axis_sample ruckig_disabled 1 0 = (1 / 6, 1 / 2, 1)"
    by (simp add: axis_sample_def profile_sample_def upper_bound_def integrate_def ruckig_disabled_def
        check_example_done_def check_example_def Let_def)
  have n: "2 \<le> length (new_position output_two)" "2 \<le> length (new_velocity output_two)"
    "2 \<le> length (new_acceleration output_two)" "(0::nat) < 2"
    by (simp_all add: output_two_def)
  have "new_position (at_time 2 ruckig_disabled 1 output_two) ! 0 = 1 / 6
   \<and> new_velocity (at_time 2 ruckig_disabled 1 output_two) ! 0 = 1 / 2
   \<and> new_acceleration (at_time 2 ruckig_disabled 1 output_two) ! 0 = 1"
    unfolding at_time_fold using fold_set_axis_nth[OF n] s
    by (simp add: ruckig_disabled_def)
  then show ?thesis
    by (simp add: ruckig_disabled_def input_disabled_def integrate_def)
qed

section \<open>Properties of \<^verbatim>\<open>Ruckig::synchronize\<close>\<close>

lemma possible_t_syncs_length: "length (possible_t_syncs blks) = 3 * length blks"
  by (induction blks) (simp_all add: possible_t_syncs_def)

lemma possible_t_syncs_Cons:
  "possible_t_syncs (blk # blks) =
     [Finite (t_min blk),
      (case a_interval blk of Some iv \<Rightarrow> Finite (right iv) | None \<Rightarrow> Infinity),
      (case b_interval blk of Some iv \<Rightarrow> Finite (right iv) | None \<Rightarrow> Infinity)] @ possible_t_syncs blks"
  by (simp add: possible_t_syncs_def)

lemma possible_t_syncs_nth:
  "d < length blks \<Longrightarrow>
     possible_t_syncs blks ! (3 * d) = Finite (t_min (blks ! d))
     \<and> possible_t_syncs blks ! (3 * d + 1) =
         (case a_interval (blks ! d) of Some iv \<Rightarrow> Finite (right iv) | None \<Rightarrow> Infinity)
     \<and> possible_t_syncs blks ! (3 * d + 2) =
         (case b_interval (blks ! d) of Some iv \<Rightarrow> Finite (right iv) | None \<Rightarrow> Infinity)"
proof (induction blks arbitrary: d)
  case Nil
  then show ?case by simp
next
  case (Cons blk blks)
  show ?case
  proof (cases d)
    case 0
    then show ?thesis by (simp add: possible_t_syncs_Cons)
  next
    case (Suc d')
    then have "d' < length blks" using Cons.prems by simp
    from Cons.IH[OF this] show ?thesis
      by (simp add: possible_t_syncs_Cons Suc nth_Cons' )
  qed
qed

lemma limiting_dof_div: "nat (\<lceil>(real i + 1) / 3\<rceil> - 1) = i div 3"
proof -
  have 1: "3 * (i div 3) \<le> i" "i < 3 * (i div 3) + 3" by simp_all
  have "\<lceil>(real i + 1) / 3\<rceil> = int (i div 3) + 1"
  proof (rule ceiling_unique)
    have "real (3 * (i div 3)) \<le> real i" using 1(1) of_nat_le_iff by blast
    then show "of_int (int (i div 3) + 1) - 1 < (real i + 1) / 3" by simp
    have "real i < real (3 * (i div 3) + 3)" using 1(2) of_nat_less_iff by blast
    then show "(real i + 1) / 3 \<le> of_int (int (i div 3) + 1)" by simp
  qed
  then show ?thesis by simp
qed

lemma not_is_blocked_iff:
  "\<not> is_blocked blk tau \<longleftrightarrow>
     Finite (t_min blk) \<le> tau
     \<and> \<not> inside_interval (a_interval blk) tau \<and> \<not> inside_interval (b_interval blk) tau"
  by (auto simp: is_blocked_def inside_interval_def not_less split: option.splits)

lemma rejected_iff: "rejected blks t_min_floor tau \<longleftrightarrow> \<not> accepted blks t_min_floor tau"
  unfolding rejected_def accepted_def not_is_blocked_iff[symmetric]
  by (auto simp: list_ex_iff list_all_iff not_le)

lemma try_candidates_find:
  "try_candidates blks t_min_floor cands profs idxs =
     (case List.find (\<lambda>i. \<not> rejected blks t_min_floor (cands ! i)) idxs of
        None \<Rightarrow> Inr None
      | Some i \<Rightarrow> (case accept blks cands profs i of Inl e \<Rightarrow> Inl e | Inr res \<Rightarrow> Inr (Some res)))"
  by (induction idxs) simp_all

lemma insort_key_lex:
  fixes f :: "nat \<Rightarrow> 'k::linorder"
  assumes "sorted_wrt (\<lambda>x y. f x < f y \<or> (f x = f y \<and> x < y)) ys" and "\<forall>y\<in>set ys. x < y"
  shows "sorted_wrt (\<lambda>x y. f x < f y \<or> (f x = f y \<and> x < y)) (insort_key f x ys)"
  using assms
proof (induction ys)
  case Nil
  then show ?case by simp
next
  case (Cons y ys)
  show ?case
  proof (cases "f x \<le> f y")
    case True
    have "f x < f z \<or> (f x = f z \<and> x < z)" if "z \<in> set (y # ys)" for z
    proof -
      have "f y \<le> f z" using Cons.prems(1) that by auto
      then have "f x \<le> f z" using True by simp
      moreover have "x < z" using Cons.prems(2) that by auto
      ultimately show ?thesis by auto
    qed
    then show ?thesis using True Cons.prems(1) by simp
  next
    case False
    then have "f y < f x" by simp
    moreover have "sorted_wrt (\<lambda>x y. f x < f y \<or> (f x = f y \<and> x < y)) (insort_key f x ys)"
      using Cons.IH Cons.prems by simp
    ultimately show ?thesis using False Cons.prems(1) by (auto simp: set_insort_key)
  qed
qed

lemma sort_key_lex:
  fixes f :: "nat \<Rightarrow> 'k::linorder"
  shows "sorted_wrt (<) xs \<Longrightarrow> sorted_wrt (\<lambda>x y. f x < f y \<or> (f x = f y \<and> x < y)) (sort_key f xs)"
proof (induction xs)
  case Nil
  then show ?case by simp
next
  case (Cons x xs)
  then have "sorted_wrt (\<lambda>x y. f x < f y \<or> (f x = f y \<and> x < y)) (sort_key f xs)" by simp
  moreover have "\<forall>y\<in>set (sort_key f xs). x < y" using Cons.prems by simp
  ultimately show ?case using insort_key_lex[of f "sort_key f xs" x] by simp
qed

lemma find_sorted_wrt:
  "sorted_wrt R ys \<Longrightarrow> List.find P ys = Some i \<Longrightarrow>
     i \<in> set ys \<and> P i \<and> (\<forall>k\<in>set ys. P k \<longrightarrow> k = i \<or> R i k)"
proof (induction ys)
  case Nil
  then show ?case by simp
next
  case (Cons y ys)
  show ?case
  proof (cases "P y")
    case True
    then show ?thesis using Cons.prems by auto
  next
    case False
    then have "List.find P ys = Some i" using Cons.prems(2) by simp
    moreover have "sorted_wrt R ys" using Cons.prems(1) by simp
    ultimately have "i \<in> set ys \<and> P i \<and> (\<forall>k\<in>set ys. P k \<longrightarrow> k = i \<or> R i k)" by (rule Cons.IH[rotated])
    then show ?thesis using False by auto
  qed
qed

lemma sorted_idx_set: "set (sorted_idx cands) = {0..<length cands}"
  by (simp add: sorted_idx_def)

lemma find_sorted_idx_Some:
  assumes "List.find P (sorted_idx cands) = Some i"
  shows "i < length cands \<and> P i
     \<and> (\<forall>k<length cands. P k \<longrightarrow> cands ! i < cands ! k \<or> (cands ! i = cands ! k \<and> i \<le> k))"
proof -
  have "sorted_wrt (\<lambda>x y. cands ! x < cands ! y \<or> (cands ! x = cands ! y \<and> x < y)) (sorted_idx cands)"
    unfolding sorted_idx_def by (rule sort_key_lex) simp
  from find_sorted_wrt[OF this assms] show ?thesis
    by (auto simp: sorted_idx_set)
qed

lemma find_sorted_idx_None:
  "List.find P (sorted_idx cands) = None \<longleftrightarrow> (\<forall>i<length cands. \<not> P i)"
  by (auto simp: find_None_iff sorted_idx_set)

lemma first_accepted_find:
  assumes "first_accepted blks t_min_floor i"
  shows "List.find (\<lambda>i. \<not> rejected blks t_min_floor (possible_t_syncs blks ! i)) (sorted_idx (possible_t_syncs blks)) = Some i"
proof -
  let ?cs = "possible_t_syncs blks"
  let ?P = "\<lambda>i. \<not> rejected blks t_min_floor (?cs ! i)"
  have len: "length ?cs = 3 * length blks" by (rule possible_t_syncs_length)
  have i: "i < length ?cs" "?P i"
    and least: "\<And>k. k < length ?cs \<Longrightarrow> ?P k \<Longrightarrow> ?cs ! i < ?cs ! k \<or> (?cs ! i = ?cs ! k \<and> i \<le> k)"
    using assms by (simp_all add: first_accepted_def rejected_iff len list_all_iff)
  have "List.find ?P (sorted_idx ?cs) \<noteq> None"
    using i by (auto simp: find_sorted_idx_None)
  then obtain i' where f: "List.find ?P (sorted_idx ?cs) = Some i'" by auto
  note F = find_sorted_idx_Some[OF f]
  from F i have "?cs ! i' < ?cs ! i \<or> (?cs ! i' = ?cs ! i \<and> i' \<le> i)" by blast
  moreover from least[of i'] F have "?cs ! i < ?cs ! i' \<or> (?cs ! i = ?cs ! i' \<and> i \<le> i')" by blast
  ultimately have "i' = i" by auto
  then show ?thesis using f by simp
qed

lemma find_first_accepted:
  assumes "List.find (\<lambda>i. \<not> rejected blks t_min_floor (possible_t_syncs blks ! i)) (sorted_idx (possible_t_syncs blks)) = Some i"
  shows "first_accepted blks t_min_floor i"
  using find_sorted_idx_Some[OF assms]
  by (simp add: first_accepted_def rejected_iff possible_t_syncs_length list_all_iff)

lemma accept_eq:
  "accept blks cands profs i =
     (if i mod 3 = 0 then Inr (cands ! i, i div 3, profs[i div 3 := p_min (blks ! (i div 3))])
      else if i mod 3 = 1 then
        (case p_a (blks ! (i div 3)) of
           None \<Rightarrow> Inl bad_optional_access
         | Some pa \<Rightarrow> Inr (cands ! i, i div 3, profs[i div 3 := pa]))
      else
        (case p_b (blks ! (i div 3)) of
           None \<Rightarrow> Inl bad_optional_access
         | Some pb \<Rightarrow> Inr (cands ! i, i div 3, profs[i div 3 := pb])))"
  by (simp add: accept_def Let_def limiting_dof_div)

lemma synchronize_general:
  assumes "\<not> (length blks = 1 \<and> t_min_floor = None)"
  shows "synchronize blks t_min_floor profs =
     (case List.find (\<lambda>i. \<not> rejected blks t_min_floor (possible_t_syncs blks ! i))
             (sorted_idx (possible_t_syncs blks)) of
        None \<Rightarrow> Inr None
      | Some i \<Rightarrow> (case accept blks (possible_t_syncs blks) profs i of Inl e \<Rightarrow> Inl e | Inr res \<Rightarrow> Inr (Some res)))"
  by (simp only: synchronize_def assms if_False try_candidates_find)

lemma synchronize_first_accepted:
  assumes "\<not> (length blks = 1 \<and> t_min_floor = None)" and "first_accepted blks t_min_floor i"
  shows "synchronize blks t_min_floor profs =
     (case accept blks (possible_t_syncs blks) profs i of Inl e \<Rightarrow> Inl e | Inr res \<Rightarrow> Inr (Some res))"
  by (simp add: synchronize_general[OF assms(1)] first_accepted_find[OF assms(2)])

lemma first_accepted_unique:
  assumes "first_accepted blks t_min_floor i" and "first_accepted blks t_min_floor k"
  shows "i = k"
proof -
  let ?cs = "possible_t_syncs blks"
  have "?cs ! i < ?cs ! k \<or> (?cs ! i = ?cs ! k \<and> i \<le> k)"
    using assms by (simp add: first_accepted_def list_all_iff)
  moreover have "?cs ! k < ?cs ! i \<or> (?cs ! k = ?cs ! i \<and> k \<le> i)"
    using assms by (simp add: first_accepted_def list_all_iff)
  ultimately show ?thesis by auto
qed

lemma accepted_t_min_single:
  assumes "feasible_t_min blk"
  shows "accepted [blk] None (Finite (t_min blk))"
  using assms by (simp add: accepted_def feasible_t_min_def)

lemma first_accepted_single:
  assumes "feasible_t_min blk"
  shows "first_accepted [blk] None 0"
proof -
  have c0: "possible_t_syncs [blk] ! 0 = Finite (t_min blk)" by (simp add: possible_t_syncs_def)
  have "accepted [blk] None tau \<Longrightarrow> Finite (t_min blk) < tau \<or> Finite (t_min blk) = tau" for tau
    by (auto simp: accepted_def)
  then show ?thesis
    unfolding first_accepted_def c0 using accepted_t_min_single[OF assms]
    by (auto simp: list_all_iff)
qed

lemma synchronize_fast_path:
  "synchronize [blk] None profs = Inr (Some (Finite (t_min blk), 0, profs[0 := p_min blk]))"
  by (simp add: synchronize_def)

text \<open>
  C6 holds of the source whenever the profile selected by the first accepted candidate is
  present, and fails otherwise. The candidates are \<open>t_min\<close>, right end of \<open>a\<close>, right end of
  \<open>b\<close> of every axis (infinity for an absent interval). \<open>synchronize\<close> returns false exactly
  when no candidate is accepted. When \<open>i\<close> is the first accepted index in ascending stable
  order, it returns that candidate as \<open>t_sync\<close>, \<open>i div 3\<close> as \<open>limiting_dof\<close> and, for
  \<open>i mod 3 = 0, 1, 2\<close>, the profile \<open>p_min\<close>, \<open>p_a\<close>, \<open>p_b\<close> of that axis; but when the selected
  \<open>p_a\<close> or \<open>p_b\<close> is absent (the candidate is then the infinity of an absent interval), no
  duration is returned and \<^verbatim>\<open>value()\<close> throws. Every result that is returned is of this
  kind. Acceptance is \<open>accepted\<close>: membership in an interval is strict, so an end point and
  \<open>t_min\<close> itself are accepted. On the fast path of one axis without a floor the block is
  taken as \<^verbatim>\<open>Step1\<close> finalises it (\<open>feasible_t_min\<close>); the candidate walk itself needs no
  such assumption.
\<close>

theorem synchronize_spec:
  assumes wf: "length blks = 1 \<and> t_min_floor = None \<longrightarrow> feasible_t_min (blks ! 0)"
  shows "(synchronize blks t_min_floor profs = Inr None \<longleftrightarrow>
           (\<forall>i<3 * length blks. \<not> accepted blks t_min_floor (possible_t_syncs blks ! i)))
   \<and> (\<forall>i. first_accepted blks t_min_floor i \<longrightarrow>
         (i mod 3 = 0 \<longrightarrow>
            synchronize blks t_min_floor profs =
              Inr (Some (possible_t_syncs blks ! i, i div 3, profs[i div 3 := p_min (blks ! (i div 3))])))
         \<and> (i mod 3 = 1 \<longrightarrow>
              synchronize blks t_min_floor profs =
                (case p_a (blks ! (i div 3)) of
                   Some pa \<Rightarrow> Inr (Some (possible_t_syncs blks ! i, i div 3, profs[i div 3 := pa]))
                 | None \<Rightarrow> Inl bad_optional_access))
         \<and> (i mod 3 = 2 \<longrightarrow>
              synchronize blks t_min_floor profs =
                (case p_b (blks ! (i div 3)) of
                   Some pb \<Rightarrow> Inr (Some (possible_t_syncs blks ! i, i div 3, profs[i div 3 := pb]))
                 | None \<Rightarrow> Inl bad_optional_access)))
   \<and> (\<forall>t_sync limiting_dof profs'.
         synchronize blks t_min_floor profs = Inr (Some (t_sync, limiting_dof, profs')) \<longrightarrow>
         (\<exists>i. first_accepted blks t_min_floor i \<and> t_sync = possible_t_syncs blks ! i
               \<and> limiting_dof = i div 3))
   \<and> (\<forall>d<length blks.
         possible_t_syncs blks ! (3 * d) = Finite (t_min (blks ! d))
         \<and> possible_t_syncs blks ! (3 * d + 1) =
             (case a_interval (blks ! d) of Some iv \<Rightarrow> Finite (right iv) | None \<Rightarrow> Infinity)
         \<and> possible_t_syncs blks ! (3 * d + 2) =
             (case b_interval (blks ! d) of Some iv \<Rightarrow> Finite (right iv) | None \<Rightarrow> Infinity))"
proof (cases "length blks = 1 \<and> t_min_floor = None")
  case True
  then obtain blk where blks: "blks = [blk]" by (cases blks) auto
  have fl: "t_min_floor = None" using True by simp
  have fe: "feasible_t_min blk" using wf True blks by simp
  note f0 = first_accepted_single[OF fe]
  have c0: "possible_t_syncs [blk] ! 0 = Finite (t_min blk)" by (simp add: possible_t_syncs_def)
  have only0: "i = 0" if "first_accepted [blk] None i" for i
    using first_accepted_unique[OF that f0] .
  have 1: "synchronize [blk] None profs = Inr None \<longleftrightarrow>
           (\<forall>i<3 * length [blk]. \<not> accepted [blk] None (possible_t_syncs [blk] ! i))"
  proof -
    have "accepted [blk] None (possible_t_syncs [blk] ! 0)"
      unfolding c0 by (rule accepted_t_min_single[OF fe])
    then have "\<exists>i<3 * length [blk]. accepted [blk] None (possible_t_syncs [blk] ! i)"
      by (intro exI[of _ 0]) simp
    then show ?thesis by (auto simp: synchronize_fast_path)
  qed
  have 2: "\<forall>i. first_accepted [blk] None i \<longrightarrow>
         (i mod 3 = 0 \<longrightarrow>
            synchronize [blk] None profs =
              Inr (Some (possible_t_syncs [blk] ! i, i div 3, profs[i div 3 := p_min ([blk] ! (i div 3))])))
         \<and> (i mod 3 = 1 \<longrightarrow>
              synchronize [blk] None profs =
                (case p_a ([blk] ! (i div 3)) of
                   Some pa \<Rightarrow> Inr (Some (possible_t_syncs [blk] ! i, i div 3, profs[i div 3 := pa]))
                 | None \<Rightarrow> Inl bad_optional_access))
         \<and> (i mod 3 = 2 \<longrightarrow>
              synchronize [blk] None profs =
                (case p_b ([blk] ! (i div 3)) of
                   Some pb \<Rightarrow> Inr (Some (possible_t_syncs [blk] ! i, i div 3, profs[i div 3 := pb]))
                 | None \<Rightarrow> Inl bad_optional_access))"
  proof (intro allI impI)
    fix i assume "first_accepted [blk] None i"
    then have "i = 0" by (rule only0)
    then show "(i mod 3 = 0 \<longrightarrow>
            synchronize [blk] None profs =
              Inr (Some (possible_t_syncs [blk] ! i, i div 3, profs[i div 3 := p_min ([blk] ! (i div 3))])))
         \<and> (i mod 3 = 1 \<longrightarrow>
              synchronize [blk] None profs =
                (case p_a ([blk] ! (i div 3)) of
                   Some pa \<Rightarrow> Inr (Some (possible_t_syncs [blk] ! i, i div 3, profs[i div 3 := pa]))
                 | None \<Rightarrow> Inl bad_optional_access))
         \<and> (i mod 3 = 2 \<longrightarrow>
              synchronize [blk] None profs =
                (case p_b ([blk] ! (i div 3)) of
                   Some pb \<Rightarrow> Inr (Some (possible_t_syncs [blk] ! i, i div 3, profs[i div 3 := pb]))
                 | None \<Rightarrow> Inl bad_optional_access))"
      by (simp add: synchronize_fast_path c0)
  qed
  have 3: "\<forall>t_sync limiting_dof profs'.
         synchronize [blk] None profs = Inr (Some (t_sync, limiting_dof, profs')) \<longrightarrow>
         (\<exists>i. first_accepted [blk] None i \<and> t_sync = possible_t_syncs [blk] ! i
               \<and> limiting_dof = i div 3)"
    using f0 c0 by (auto simp: synchronize_fast_path intro!: exI[of _ 0])
  have 4: "\<forall>d<length [blk].
         possible_t_syncs [blk] ! (3 * d) = Finite (t_min ([blk] ! d))
         \<and> possible_t_syncs [blk] ! (3 * d + 1) =
             (case a_interval ([blk] ! d) of Some iv \<Rightarrow> Finite (right iv) | None \<Rightarrow> Infinity)
         \<and> possible_t_syncs [blk] ! (3 * d + 2) =
             (case b_interval ([blk] ! d) of Some iv \<Rightarrow> Finite (right iv) | None \<Rightarrow> Infinity)"
    using possible_t_syncs_nth[of _ "[blk]"] by blast
  show ?thesis unfolding blks fl by (intro conjI) (rule 1 2 3 4)+
next
  case False
  note g = False
  have 1: "synchronize blks t_min_floor profs = Inr None \<longleftrightarrow>
           (\<forall>i<3 * length blks. \<not> accepted blks t_min_floor (possible_t_syncs blks ! i))"
    unfolding synchronize_general[OF g]
    by (auto simp: find_sorted_idx_None[symmetric] rejected_iff possible_t_syncs_length[symmetric]
        split: option.splits sum.splits)
  have 2: "\<forall>i. first_accepted blks t_min_floor i \<longrightarrow>
         (i mod 3 = 0 \<longrightarrow>
            synchronize blks t_min_floor profs =
              Inr (Some (possible_t_syncs blks ! i, i div 3, profs[i div 3 := p_min (blks ! (i div 3))])))
         \<and> (i mod 3 = 1 \<longrightarrow>
              synchronize blks t_min_floor profs =
                (case p_a (blks ! (i div 3)) of
                   Some pa \<Rightarrow> Inr (Some (possible_t_syncs blks ! i, i div 3, profs[i div 3 := pa]))
                 | None \<Rightarrow> Inl bad_optional_access))
         \<and> (i mod 3 = 2 \<longrightarrow>
              synchronize blks t_min_floor profs =
                (case p_b (blks ! (i div 3)) of
                   Some pb \<Rightarrow> Inr (Some (possible_t_syncs blks ! i, i div 3, profs[i div 3 := pb]))
                 | None \<Rightarrow> Inl bad_optional_access))"
  proof (intro allI impI conjI)
    fix i assume f: "first_accepted blks t_min_floor i" and m: "i mod 3 = 0"
    show "synchronize blks t_min_floor profs =
              Inr (Some (possible_t_syncs blks ! i, i div 3, profs[i div 3 := p_min (blks ! (i div 3))]))"
      using m by (simp add: synchronize_first_accepted[OF g f] accept_eq)
  next
    fix i assume f: "first_accepted blks t_min_floor i" and m: "i mod 3 = 1"
    show "synchronize blks t_min_floor profs =
                (case p_a (blks ! (i div 3)) of
                   Some pa \<Rightarrow> Inr (Some (possible_t_syncs blks ! i, i div 3, profs[i div 3 := pa]))
                 | None \<Rightarrow> Inl bad_optional_access)"
      using m by (simp add: synchronize_first_accepted[OF g f] accept_eq split: option.splits)
  next
    fix i assume f: "first_accepted blks t_min_floor i" and m: "i mod 3 = 2"
    show "synchronize blks t_min_floor profs =
                (case p_b (blks ! (i div 3)) of
                   Some pb \<Rightarrow> Inr (Some (possible_t_syncs blks ! i, i div 3, profs[i div 3 := pb]))
                 | None \<Rightarrow> Inl bad_optional_access)"
      using m by (simp add: synchronize_first_accepted[OF g f] accept_eq split: option.splits)
  qed
  have 3: "\<forall>t_sync limiting_dof profs'.
         synchronize blks t_min_floor profs = Inr (Some (t_sync, limiting_dof, profs')) \<longrightarrow>
         (\<exists>i. first_accepted blks t_min_floor i \<and> t_sync = possible_t_syncs blks ! i
               \<and> limiting_dof = i div 3)"
  proof (intro allI impI)
    fix t_sync limiting_dof profs'
    assume s: "synchronize blks t_min_floor profs = Inr (Some (t_sync, limiting_dof, profs'))"
    from s obtain i where
      f: "List.find (\<lambda>i. \<not> rejected blks t_min_floor (possible_t_syncs blks ! i))
            (sorted_idx (possible_t_syncs blks)) = Some i"
      and acc: "accept blks (possible_t_syncs blks) profs i = Inr (t_sync, limiting_dof, profs')"
      unfolding synchronize_general[OF g] by (auto split: option.splits sum.splits)
    have "t_sync = possible_t_syncs blks ! i \<and> limiting_dof = i div 3"
      using acc by (auto simp: accept_eq split: if_splits option.splits)
    then show "\<exists>i. first_accepted blks t_min_floor i \<and> t_sync = possible_t_syncs blks ! i
                      \<and> limiting_dof = i div 3"
      using find_first_accepted[OF f] by blast
  qed
  have 4: "\<forall>d<length blks.
         possible_t_syncs blks ! (3 * d) = Finite (t_min (blks ! d))
         \<and> possible_t_syncs blks ! (3 * d + 1) =
             (case a_interval (blks ! d) of Some iv \<Rightarrow> Finite (right iv) | None \<Rightarrow> Infinity)
         \<and> possible_t_syncs blks ! (3 * d + 2) =
             (case b_interval (blks ! d) of Some iv \<Rightarrow> Finite (right iv) | None \<Rightarrow> Infinity)"
    using possible_t_syncs_nth[of _ blks] by blast
  show ?thesis by (intro conjI) (rule 1 2 3 4)+
qed

lemma possible_t_syncs_gap:
  "possible_t_syncs [block_gap, block_plain\<lparr>t_min := 4\<rparr>]
     = [Finite 3, Finite 12, Infinity, Finite 4, Infinity, Infinity]"
  by (simp add: possible_t_syncs_def block_gap_def block_plain_def)

lemma possible_t_syncs_plain_two:
  "possible_t_syncs [block_plain, block_plain\<lparr>t_min := 4\<rparr>]
     = [Finite 3, Infinity, Infinity, Finite 4, Infinity, Infinity]"
  by (simp add: possible_t_syncs_def block_plain_def)

text \<open>
  The theorem at three inputs. One axis with \<open>block_gap\<close> and no floor (the fast path):
  the first accepted candidate is \<open>t_min = 3\<close>, and it is returned with \<open>p_min\<close>. Two axes,
  the first with \<open>block_gap\<close>, and no floor: the candidate 3 is below the \<open>t_min = 4\<close> of the
  second axis, the candidate 4 lies inside the interval \<open>(3, 12)\<close>, and the right end 12,
  of index 1, is accepted and selects \<open>p_a\<close> of the axis 0. Two axes without forbidden
  intervals and the floor 10: the candidates 3 and 4 are below the floor, the first
  accepted candidate is the infinity of index 1, \<open>p_a\<close> of the axis 0 is absent, and
  \<open>synchronize\<close> throws where C6 promises a duration and a profile.
\<close>

theorem synchronize_spec_witness:
  "feasible_t_min block_gap
   \<and> first_accepted [block_gap] None 0
   \<and> synchronize [block_gap] None [check_example] = Inr (Some (Finite 3, 0, [check_example_done]))
   \<and> first_accepted [block_gap, block_plain\<lparr>t_min := 4\<rparr>] None 1
   \<and> possible_t_syncs [block_gap, block_plain\<lparr>t_min := 4\<rparr>] ! 1 = Finite 12
   \<and> a_interval block_gap = Some \<lparr>left = 3, right = 12\<rparr>
   \<and> synchronize [block_gap, block_plain\<lparr>t_min := 4\<rparr>] None [check_example, check_example]
       = Inr (Some (Finite 12, 0, [check_example_done\<lparr>limits := VEL\<rparr>, check_example]))
   \<and> first_accepted [block_plain, block_plain\<lparr>t_min := 4\<rparr>] (Some 10) 1
   \<and> possible_t_syncs [block_plain, block_plain\<lparr>t_min := 4\<rparr>] ! 1 = Infinity
   \<and> p_a ([block_plain, block_plain\<lparr>t_min := 4\<rparr>] ! 0) = None
   \<and> synchronize [block_plain, block_plain\<lparr>t_min := 4\<rparr>] (Some 10) [check_example, check_example]
       = Inl bad_optional_access"
proof -
  let ?one = "[block_gap]"
  let ?blks = "[block_gap, block_plain\<lparr>t_min := 4\<rparr>]"
  let ?bad = "[block_plain, block_plain\<lparr>t_min := 4\<rparr>]"
  have fe: "feasible_t_min block_gap"
    by (simp add: feasible_t_min_def inside_interval_def block_gap_def)
  have wf1: "length ?one = 1 \<and> (None :: real option) = None \<longrightarrow> feasible_t_min (?one ! 0)"
    using fe by simp
  have c10: "possible_t_syncs ?one = [Finite 3, Finite 12, Infinity]"
    by (simp add: possible_t_syncs_def block_gap_def)
  have acc1: "accepted ?one None (Finite 3)" "accepted ?one None (Finite 12)" "accepted ?one None Infinity"
    by (simp_all add: accepted_def inside_interval_def block_gap_def)
  have f1: "first_accepted ?one None 0"
    unfolding first_accepted_def c10 using acc1 by (simp add: upt_rec)
  have m0: "0 mod 3 = (0::nat)" by simp
  note S1 = synchronize_spec[of ?one None "[check_example]", OF wf1, THEN conjunct2, THEN conjunct1,
      THEN spec, of 0, THEN mp, OF f1, THEN conjunct1, THEN mp, OF m0]
  have s1: "synchronize ?one None [check_example] = Inr (Some (Finite 3, 0, [check_example_done]))"
    using S1[unfolded c10] by (simp add: block_gap_def)
  have wf2: "length ?blks = 1 \<and> (None :: real option) = None \<longrightarrow> feasible_t_min (?blks ! 0)"
    by simp
  have acc: "accepted ?blks None (Finite 12)" "accepted ?blks None Infinity"
    "\<not> accepted ?blks None (Finite 3)" "\<not> accepted ?blks None (Finite 4)"
    by (simp_all add: accepted_def inside_interval_def block_gap_def block_plain_def)
  have f2: "first_accepted ?blks None 1"
    unfolding first_accepted_def possible_t_syncs_gap using acc by (simp add: upt_rec)
  have m1: "1 mod 3 = (1::nat)" by simp
  note S2 = synchronize_spec[of ?blks None "[check_example, check_example]", OF wf2, THEN conjunct2,
      THEN conjunct1, THEN spec, of 1, THEN mp, OF f2, THEN conjunct2, THEN conjunct1, THEN mp, OF m1]
  have c1: "possible_t_syncs ?blks ! 1 = Finite 12" by (simp add: possible_t_syncs_gap)
  have a1: "a_interval block_gap = Some \<lparr>left = 3, right = 12\<rparr>" by (simp add: block_gap_def)
  have s2: "synchronize ?blks None [check_example, check_example]
       = Inr (Some (Finite 12, 0, [check_example_done\<lparr>limits := VEL\<rparr>, check_example]))"
    using S2[unfolded possible_t_syncs_gap] by (simp add: block_gap_def)
  have wf3: "length ?bad = 1 \<and> Some (10::real) = None \<longrightarrow> feasible_t_min (?bad ! 0)"
    by simp
  have acc3: "accepted ?bad (Some 10) Infinity"
    "\<not> accepted ?bad (Some 10) (Finite 3)" "\<not> accepted ?bad (Some 10) (Finite 4)"
    by (simp_all add: accepted_def inside_interval_def block_plain_def)
  have f3: "first_accepted ?bad (Some 10) 1"
    unfolding first_accepted_def possible_t_syncs_plain_two using acc3 by (simp add: upt_rec)
  note S3 = synchronize_spec[of ?bad "Some 10" "[check_example, check_example]", OF wf3, THEN conjunct2,
      THEN conjunct1, THEN spec, of 1, THEN mp, OF f3, THEN conjunct2, THEN conjunct1, THEN mp, OF m1]
  have c3: "possible_t_syncs ?bad ! 1 = Infinity" by (simp add: possible_t_syncs_plain_two)
  have p3: "p_a (?bad ! 0) = None" by (simp add: block_plain_def)
  have s3: "synchronize ?bad (Some 10) [check_example, check_example] = Inl bad_optional_access"
    using S3[unfolded possible_t_syncs_plain_two] by (simp add: block_plain_def)
  show ?thesis by (intro conjI) (rule fe f1 s1 f2 c1 a1 s2 f3 c3 p3 s3)+
qed

lemma sorted_idx_three: "sorted_idx [Finite x, Infinity, Infinity] = [0, 1, 2]"
  by (simp add: sorted_idx_def upt_rec)

text \<open>
  C9 does not hold of the source. For one block without intervals and the floor 10 the
  candidates are \<open>3, \<infinity>, \<infinity>\<close>; the candidate 3 is below the floor, the infinite
  candidate of index 1 is not rejected, and \<^verbatim>\<open>p_a.value()\<close> on the empty optional throws.
\<close>

theorem synchronize_absent_profile_throws:
  "a_interval block_plain = None \<and> p_a block_plain = None
   \<and> possible_t_syncs [block_plain] = [Finite 3, Infinity, Infinity]
   \<and> \<not> rejected [block_plain] (Some 10) Infinity
   \<and> synchronize [block_plain] (Some 10) [check_example] = Inl bad_optional_access"
proof -
  have c: "possible_t_syncs [block_plain] = [Finite 3, Infinity, Infinity]"
    by (simp add: possible_t_syncs_def block_plain_def)
  have r: "rejected [block_plain] (Some 10) (Finite 3)" "\<not> rejected [block_plain] (Some 10) Infinity"
    by (simp_all add: rejected_def is_blocked_def block_plain_def)
  have pa: "a_interval block_plain = None" "p_a block_plain = None" by (simp_all add: block_plain_def)
  have s: "synchronize [block_plain] (Some 10) [check_example] = Inl bad_optional_access"
    using r pa by (simp add: synchronize_def c sorted_idx_three accept_eq)
  show ?thesis by (intro conjI) (rule pa c r s)+
qed

section \<open>Properties of \<^verbatim>\<open>Ruckig::calculate\<close> and \<^verbatim>\<open>Ruckig::update\<close>\<close>

lemma validate_loop_iff: "validate_loop input ds \<longleftrightarrow> (\<forall>dof\<in>set ds. validate_axis input dof)"
  by (induction ds) simp_all

lemma validate_input_iff: "validate_input DOFs input \<longleftrightarrow> (\<forall>dof<DOFs. validate_axis input dof)"
  by (auto simp: validate_input_def validate_loop_iff)

lemma not_validate_axis_iff:
  "\<not> validate_axis input dof \<longleftrightarrow>
     max_velocity input ! dof \<le> 0 \<or> max_acceleration input ! dof \<le> 0 \<or> max_jerk input ! dof \<le> 0
     \<or> target_velocity input ! dof > max_velocity input ! dof
     \<or> target_acceleration input ! dof > max_acceleration input ! dof
     \<or> (0 \<le> 2 * max_jerk input ! dof * (max_velocity input ! dof - \<bar>target_velocity input ! dof\<bar>)
         \<and> \<bar>target_acceleration input ! dof\<bar>
              > sqrt (2 * max_jerk input ! dof * (max_velocity input ! dof - \<bar>target_velocity input ! dof\<bar>)))"
  by (auto simp: validate_axis_def Let_def)

text \<open>
  C3 (amended). If some axis has \<open>max_velocity \<le> 0\<close>, \<open>max_acceleration \<le> 0\<close>,
  \<open>max_jerk \<le> 0\<close>, a target velocity above \<open>max_velocity\<close>, a target acceleration above
  \<open>max_acceleration\<close>, or \<open>\<bar>target_acceleration\<bar>\<close> above the square root of the non-negative
  number \<open>2 * max_jerk * (max_velocity - \<bar>target_velocity\<bar>)\<close>, then validation fails and
  \<open>calculate\<close> returns \<^verbatim>\<open>ErrorInvalidInput\<close> before any planning: the output, the stored
  profiles, \<open>tf\<close> and the clock are unchanged, and the cached \<open>current_input\<close> has been
  overwritten with the rejected input.
\<close>

theorem calculate_invalid_input:
  assumes "dof < DOFs"
    and "max_velocity input ! dof \<le> 0 \<or> max_acceleration input ! dof \<le> 0 \<or> max_jerk input ! dof \<le> 0
     \<or> target_velocity input ! dof > max_velocity input ! dof
     \<or> target_acceleration input ! dof > max_acceleration input ! dof
     \<or> (0 \<le> 2 * max_jerk input ! dof * (max_velocity input ! dof - \<bar>target_velocity input ! dof\<bar>)
         \<and> \<bar>target_acceleration input ! dof\<bar>
              > sqrt (2 * max_jerk input ! dof * (max_velocity input ! dof - \<bar>target_velocity input ! dof\<bar>)))"
  shows "\<not> validate_input DOFs input
    \<and> calculate sv DOFs locals0 input r out = Inr (ErrorInvalidInput, r\<lparr>current_input := input\<rparr>, out)
    \<and> profiles (r\<lparr>current_input := input\<rparr>) = profiles r \<and> tf (r\<lparr>current_input := input\<rparr>) = tf r
    \<and> t_clock (r\<lparr>current_input := input\<rparr>) = t_clock r"
proof -
  have "\<not> validate_axis input dof" unfolding not_validate_axis_iff by (rule assms(2))
  then have "\<not> validate_input DOFs input" using assms(1) by (auto simp: validate_input_iff)
  then show ?thesis by (simp add: calculate_def)
qed

text \<open>The theorem at \<open>input_invalid\<close>, whose velocity limit is zero.\<close>

theorem calculate_invalid_input_witness:
  "max_velocity input_invalid ! 0 \<le> 0
   \<and> calculate solvers_plain 1 locals_one input_invalid ruckig_example output_example
       = Inr (ErrorInvalidInput, ruckig_example\<lparr>current_input := input_invalid\<rparr>, output_example)"
proof -
  have 1: "(0::nat) < 1" by simp
  have 2: "max_velocity input_invalid ! 0 \<le> 0" by (simp add: input_invalid_def)
  note C = calculate_invalid_input[of 0 1 input_invalid solvers_plain locals_one ruckig_example output_example,
      OF 1 disjI1, OF 2]
  show ?thesis by (intro conjI) (rule 2 C[THEN conjunct2, THEN conjunct1])+
qed

text \<open>
  C3 as stated fails: the call with the invalid input \<open>input_invalid\<close> returns
  \<^verbatim>\<open>ErrorInvalidInput\<close> and leaves \<open>input_invalid\<close> as the cached input, where
  \<open>input_example\<close> was cached before (line 245 stands before the validation).
\<close>

theorem calculate_invalid_input_counterexample:
  "\<not> validate_input 1 input_invalid
   \<and> calculate solvers_plain 1 locals_one input_invalid ruckig_example output_example
       = Inr (ErrorInvalidInput, ruckig_example\<lparr>current_input := input_invalid\<rparr>, output_example)
   \<and> current_input ruckig_example = input_example
   \<and> current_input (ruckig_example\<lparr>current_input := input_invalid\<rparr>) = input_invalid
   \<and> max_velocity input_example = [1] \<and> max_velocity input_invalid = [0]"
proof -
  have v: "\<not> validate_input 1 input_invalid"
    by (simp add: validate_input_def validate_axis_def input_invalid_def)
  then show ?thesis
    by (simp add: calculate_def ruckig_example_def input_invalid_def input_example_def)
qed

lemma axis_sample_t_clock: "axis_sample (r\<lparr>t_clock := x\<rparr>) tm dof = axis_sample r tm dof"
  by (simp add: axis_sample_def)

lemma at_time_t_clock: "at_time DOFs (r\<lparr>t_clock := x\<rparr>) tm out = at_time DOFs r tm out"
  by (cases "tf r") (simp_all add: at_time_fold axis_sample_t_clock cong: if_cong)

lemma at_time_new_calculation: "new_calculation (at_time DOFs r tm out) = new_calculation out"
  by (simp add: at_time_fold fold_set_axis_frame)

lemma update_same_input:
  assumes "input = current_input r"
  shows "update sv DOFs locals0 input r out =
     Inr (sample_and_advance DOFs (r\<lparr>t_clock := t_clock r + delta_time r\<rparr>) (out\<lparr>new_calculation := False\<rparr>))"
  using assms by (simp add: update_def Let_def)

lemma sample_and_advance_Working:
  assumes "sample_and_advance DOFs r out = (Working, r1, out1)"
  shows "r1 = r\<lparr>current_input := (current_input r)\<lparr>current_position := new_position out1,
                  current_velocity := new_velocity out1, current_acceleration := new_acceleration out1\<rparr>\<rparr>"
  using assms by (auto simp: sample_and_advance_def Let_def split: if_splits)

lemma calculate_Inr:
  assumes "calculate sv DOFs locals0 input r out = Inr (res, r2, out2)"
  shows "(res = ErrorInvalidInput \<and> \<not> validate_input DOFs input \<and> r2 = r\<lparr>current_input := input\<rparr> \<and> out2 = out)
     \<or> (res = Working \<and> validate_input DOFs input \<and> current_input r2 = input \<and> t_clock r2 = 0
         \<and> new_calculation out2)"
proof (cases "validate_input DOFs input")
  case False
  then show ?thesis using assms by (simp add: calculate_def)
next
  case True
  let ?pl0 = "locals0\<lparr>plan_profiles := profiles (r\<lparr>current_input := input\<rparr>), plan_output := out\<rparr>"
  show ?thesis
  proof (cases "step1_loop sv input [0..<DOFs] ?pl0")
    case (Inl e)
    then show ?thesis using assms True by (simp add: calculate_def)
  next
    case (Inr pl1)
    note s1 = Inr
    show ?thesis
    proof (cases "synchronize (blocks pl1) (minimum_duration input) (plan_profiles pl1)")
      case (Inl e)
      then show ?thesis using assms True s1 by (simp add: calculate_def)
    next
      case (Inr sy)
      note sy = Inr
      show ?thesis
      proof (cases sy)
        case None
        then show ?thesis using assms True s1 sy by (simp add: calculate_def)
      next
        case (Some tr)
        obtain t_sync ld profs where tr: "tr = (t_sync, ld, profs)" by (cases tr)
        show ?thesis
        proof (cases "if Finite 0 < t_sync
                      then step2_loop sv input t_sync ld [0..<DOFs] (pl1\<lparr>plan_profiles := profs\<rparr>)
                      else Inr (pl1\<lparr>plan_profiles := profs\<rparr>)")
          case (Inl e)
          then show ?thesis using assms True s1 sy Some tr by (simp add: calculate_def)
        next
          case (Inr pl2)
          then show ?thesis using assms True s1 sy Some tr by (auto simp add: calculate_def)
        qed
      qed
    qed
  qed
qed

lemma update_Working:
  assumes "update sv DOFs locals0 input r out = Inr (Working, r1, out1)"
  shows "current_input r1 = input\<lparr>current_position := new_position out1,
           current_velocity := new_velocity out1, current_acceleration := new_acceleration out1\<rparr>"
proof (cases "input = current_input r")
  case True
  then show ?thesis
    using assms sample_and_advance_Working[of DOFs "r\<lparr>t_clock := t_clock r + delta_time r\<rparr>" "out\<lparr>new_calculation := False\<rparr>" r1 out1]
    by (simp add: update_same_input)
next
  case False
  let ?c = "calculate sv DOFs locals0 input (r\<lparr>t_clock := t_clock r + delta_time r\<rparr>) (out\<lparr>new_calculation := False\<rparr>)"
  have u: "update sv DOFs locals0 input r out =
     (case ?c of Inl e \<Rightarrow> Inl e
      | Inr (res, r2, out2) \<Rightarrow> if Working \<noteq> res then Inr (Error, r2, out2) else Inr (sample_and_advance DOFs r2 out2))"
    using False by (simp add: update_def Let_def)
  show ?thesis
  proof (cases ?c)
    case (Inl e)
    then show ?thesis using assms u by simp
  next
    case (Inr tr)
    obtain res r2 out2 where tr: "tr = (res, r2, out2)" by (cases tr)
    have c: "?c = Inr (res, r2, out2)" using Inr tr by simp
    have res: "res = Working" and s: "sample_and_advance DOFs r2 out2 = (Working, r1, out1)"
      using assms unfolding u c by (auto split: if_splits)
    have "current_input r2 = input" using calculate_Inr[OF c] res by auto
    then show ?thesis using sample_and_advance_Working[OF s] by simp
  qed
qed

text \<open>
  C8. Let \<open>update\<close> return \<^verbatim>\<open>Working\<close> and leave the state \<open>r1\<close> and the output \<open>out1\<close>. Then
  the cached input is the input of that call with the current kinematics replaced by the
  sampled output. The next \<open>update\<close> with the cached input returns a result whatever the
  solvers are: its output is \<open>at_time\<close> of the unchanged plan at the advanced clock,
  \<open>new_calculation\<close> is false, the profiles and \<open>tf\<close> are those of \<open>r1\<close>, and the result is
  \<^verbatim>\<open>Finished\<close> exactly when the advanced clock plus \<open>delta_time\<close> exceeds \<open>tf\<close>, and
  \<^verbatim>\<open>Working\<close> otherwise.
\<close>

theorem update_unchanged_input:
  assumes "update sv DOFs locals0 input r out = Inr (Working, r1, out1)"
  shows "current_input r1 = input\<lparr>current_position := new_position out1,
           current_velocity := new_velocity out1, current_acceleration := new_acceleration out1\<rparr>
    \<and> (\<exists>res r2 out2.
          update sv' DOFs locals1 (current_input r1) r1 out1 = Inr (res, r2, out2)
          \<and> out2 = at_time DOFs r1 (t_clock r1 + delta_time r1) (out1\<lparr>new_calculation := False\<rparr>)
          \<and> new_calculation out2 = False
          \<and> profiles r2 = profiles r1 \<and> tf r2 = tf r1 \<and> t_clock r2 = t_clock r1 + delta_time r1
          \<and> (res = Finished \<longleftrightarrow> Finite (t_clock r1 + delta_time r1 + delta_time r1) > tf r1)
          \<and> (res = Working \<longleftrightarrow> \<not> Finite (t_clock r1 + delta_time r1 + delta_time r1) > tf r1))"
proof -
  have "\<exists>res r2 out2.
          update sv' DOFs locals1 (current_input r1) r1 out1 = Inr (res, r2, out2)
          \<and> out2 = at_time DOFs r1 (t_clock r1 + delta_time r1) (out1\<lparr>new_calculation := False\<rparr>)
          \<and> new_calculation out2 = False
          \<and> profiles r2 = profiles r1 \<and> tf r2 = tf r1 \<and> t_clock r2 = t_clock r1 + delta_time r1
          \<and> (res = Finished \<longleftrightarrow> Finite (t_clock r1 + delta_time r1 + delta_time r1) > tf r1)
          \<and> (res = Working \<longleftrightarrow> \<not> Finite (t_clock r1 + delta_time r1 + delta_time r1) > tf r1)"
    by (simp add: update_same_input sample_and_advance_def Let_def at_time_t_clock at_time_new_calculation)
  then show ?thesis using update_Working[OF assms] by blast
qed

lemma sample_and_advance_eq:
  "sample_and_advance DOFs r out =
     (if Finite (t_clock r + delta_time r) > tf r then (Finished, r, at_time DOFs r (t_clock r) out)
      else (Working,
            r\<lparr>current_input := (current_input r)\<lparr>current_position := new_position (at_time DOFs r (t_clock r) out),
                 current_velocity := new_velocity (at_time DOFs r (t_clock r) out),
                 current_acceleration := new_acceleration (at_time DOFs r (t_clock r) out)\<rparr>\<rparr>,
            at_time DOFs r (t_clock r) out))"
  by (simp add: sample_and_advance_def Let_def)

lemma first_update:
  "update solvers_plain 1 locals_one input_example ruckig_example output_example
     = Inr (Working, ruckig_second, output_second)"
proof -
  define R where "R = ruckig_example\<lparr>t_clock := t_clock ruckig_example + delta_time ruckig_example\<rparr>"
  define O' where "O' = output_example\<lparr>new_calculation := False\<rparr>"
  have s: "axis_sample R (1 / 100) 0 = (1 / 6000000, 1 / 20000, 1 / 100)"
    by (simp add: R_def axis_sample_def profile_sample_def upper_bound_def integrate_def ruckig_example_def
        check_example_done_def check_example_def Let_def power2_eq_square power3_eq_cube)
  have tc: "t_clock R = 1 / 100" by (simp add: R_def ruckig_example_def)
  have tfR: "tf R = Finite 4" "delta_time R = 1 / 100" "current_input R = input_example"
    by (simp_all add: R_def ruckig_example_def)
  have at: "at_time 1 R (t_clock R) O' = output_second"
    unfolding at_time_fold tc tfR using s
    by (simp add: O'_def output_example_def output_second_def set_axis_def)
  have fin: "\<not> Finite (t_clock R + delta_time R) > tf R" by (simp add: tc tfR)
  have sa: "sample_and_advance 1 R O' = (Working, ruckig_second, output_second)"
    unfolding sample_and_advance_eq at using fin
    by (simp add: R_def ruckig_second_def ruckig_example_def output_second_def output_example_def)
  have i: "input_example = current_input ruckig_example" by (simp add: ruckig_example_def)
  show ?thesis unfolding update_same_input[OF i] R_def[symmetric] O'_def[symmetric] sa by (rule refl)
qed

text \<open>
  The theorem at the first two cycles of \<open>ruckig_example\<close>, a plan of four seconds with
  the cycle time \<open>1 / 100\<close>.
\<close>

theorem update_unchanged_input_witness:
  "update solvers_plain 1 locals_one input_example ruckig_example output_example
     = Inr (Working, ruckig_second, output_second)
   \<and> current_position (current_input ruckig_second) = new_position output_second
   \<and> (\<exists>r2 out2.
         update solvers_plain 1 locals_one (current_input ruckig_second) ruckig_second output_second
           = Inr (Working, r2, out2)
         \<and> new_calculation out2 = False \<and> profiles r2 = profiles ruckig_second
         \<and> t_clock r2 = 2 / 100)"
proof -
  note U = update_unchanged_input[OF first_update, of solvers_plain locals_one]
  have w: "\<not> Finite (t_clock ruckig_second + delta_time ruckig_second + delta_time ruckig_second) > tf ruckig_second"
    by (simp add: ruckig_second_def ruckig_example_def)
  have t: "t_clock ruckig_second + delta_time ruckig_second = 2 / 100"
    by (simp add: ruckig_second_def ruckig_example_def)
  have p: "current_position (current_input ruckig_second) = new_position output_second"
    using U[THEN conjunct1] by simp
  from U[THEN conjunct2] w t have
    "\<exists>r2 out2.
         update solvers_plain 1 locals_one (current_input ruckig_second) ruckig_second output_second
           = Inr (Working, r2, out2)
         \<and> new_calculation out2 = False \<and> profiles r2 = profiles ruckig_second
         \<and> t_clock r2 = 2 / 100"
    by auto
  then show ?thesis using first_update p by blast
qed

section \<open>Planning failures and the floor of the duration\<close>

lemma step1_loop_fails:
  assumes "\<exists>dof\<in>set ds. enabled input ! dof \<and> step1_fails sv input (plan_profiles pl ! dof) dof"
    and "distinct ds"
  shows "\<exists>dof\<in>set ds. step1_loop sv input ds pl = Inl (runtime_error_step1 dof)"
  using assms
proof (induction ds arbitrary: pl)
  case Nil
  then show ?case by simp
next
  case (Cons d rest)
  from Cons.prems(1) obtain dof where dof: "dof \<in> set (d # rest)" "enabled input ! dof"
    "step1_fails sv input (plan_profiles pl ! dof) dof" by blast
  show ?case
  proof (cases "enabled input ! d")
    case False
    then have "dof \<in> set rest" using dof by auto
    then have "\<exists>dof\<in>set rest. step1_loop sv input rest pl = Inl (runtime_error_step1 dof)"
      using Cons.IH[of pl] dof Cons.prems(2) by auto
    then show ?thesis using False by simp
  next
    case True
    obtain prof p0 v0 a0 where bp: "brake_profile sv input d (plan_profiles pl ! d) = (prof, p0, v0, a0)"
      by (cases "brake_profile sv input d (plan_profiles pl ! d)") auto
    show ?thesis
    proof (cases "step1_get_profile sv p0 v0 a0 (target_position input ! d) (target_velocity input ! d)
                    (target_acceleration input ! d) (max_velocity input ! d)
                    (max_acceleration input ! d) (max_jerk input ! d) prof")
      case None
      then show ?thesis using True bp by simp
    next
      case (Some blk)
      then have "\<not> step1_fails sv input (plan_profiles pl ! d) d" by (simp add: step1_fails_def bp)
      then have nd: "dof \<noteq> d" and inr: "dof \<in> set rest" using dof by auto
      let ?pl = "pl\<lparr>plan_profiles := (plan_profiles pl)[d := prof],
                           p0s := (p0s pl)[d := p0], v0s := (v0s pl)[d := v0], a0s := (a0s pl)[d := a0],
                           blocks := (blocks pl)[d := blk],
                           plan_output := (plan_output pl)\<lparr>independent_min_durations :=
                             (independent_min_durations (plan_output pl))[d := t_min blk]\<rparr>\<rparr>"
      have "plan_profiles ?pl ! dof = plan_profiles pl ! dof" using nd by simp
      then have "\<exists>dof\<in>set rest. enabled input ! dof \<and> step1_fails sv input (plan_profiles ?pl ! dof) dof"
        using dof inr by auto
      then have "\<exists>dof\<in>set rest. step1_loop sv input rest ?pl = Inl (runtime_error_step1 dof)"
        using Cons.IH[of ?pl] Cons.prems(2) by simp
      then show ?thesis using True bp Some by simp
    qed
  qed
qed

lemma step2_loop_fails:
  assumes "\<exists>dof\<in>set ds. enabled input ! dof \<and> dof \<noteq> ld \<and> step2_fails sv input tsync pl dof"
    and "distinct ds"
  shows "\<exists>dof\<in>set ds. step2_loop sv input tsync ld ds pl = Inl (runtime_error_step2 dof)"
  using assms
proof (induction ds arbitrary: pl)
  case Nil
  then show ?case by simp
next
  case (Cons d rest)
  from Cons.prems(1) obtain dof where dof: "dof \<in> set (d # rest)" "enabled input ! dof" "dof \<noteq> ld"
    "step2_fails sv input tsync pl dof" by blast
  show ?case
  proof (cases "\<not> enabled input ! d \<or> d = ld")
    case True
    then have "dof \<in> set rest" using dof by auto
    then have "\<exists>dof\<in>set rest. step2_loop sv input tsync ld rest pl = Inl (runtime_error_step2 dof)"
      using Cons.IH[of pl] dof Cons.prems(2) by auto
    then show ?thesis using True by auto
  next
    case False
    show ?thesis
    proof (cases "step2_get_profile sv (t_profile tsync (plan_profiles pl ! d))
                   (p0s pl ! d) (v0s pl ! d) (a0s pl ! d)
                   (target_position input ! d) (target_velocity input ! d) (target_acceleration input ! d)
                   (max_velocity input ! d) (max_acceleration input ! d) (max_jerk input ! d)
                   (plan_profiles pl ! d)")
      case None
      then show ?thesis using False by simp
    next
      case (Some prof)
      then have "\<not> step2_fails sv input tsync pl d" by (simp add: step2_fails_def)
      then have nd: "dof \<noteq> d" and inr: "dof \<in> set rest" using dof by auto
      let ?pl = "pl\<lparr>plan_profiles := (plan_profiles pl)[d := prof]\<rparr>"
      have "step2_fails sv input tsync ?pl dof" using dof(4) nd by (simp add: step2_fails_def)
      then have "\<exists>dof\<in>set rest. enabled input ! dof \<and> dof \<noteq> ld \<and> step2_fails sv input tsync ?pl dof"
        using dof inr by auto
      then have "\<exists>dof\<in>set rest. step2_loop sv input tsync ld rest ?pl = Inl (runtime_error_step2 dof)"
        using Cons.IH[of ?pl] Cons.prems(2) by simp
      then show ?thesis using False Some by simp
    qed
  qed
qed

lemma update_other_input:
  assumes "input \<noteq> current_input r"
  shows "update sv DOFs locals0 input r out =
     (case calculate sv DOFs locals0 input (r\<lparr>t_clock := t_clock r + delta_time r\<rparr>) (out\<lparr>new_calculation := False\<rparr>) of
        Inl e \<Rightarrow> Inl e
      | Inr (res, r2, out2) \<Rightarrow>
          if Working \<noteq> res then Inr (Error, r2, out2) else Inr (sample_and_advance DOFs r2 out2))"
  using assms by (simp add: update_def Let_def)

lemma calculate_step1_Inl:
  assumes "validate_input DOFs input" and "step1_result sv DOFs locals0 input r out = Inl e"
  shows "calculate sv DOFs locals0 input (r\<lparr>t_clock := tc\<rparr>) (out\<lparr>new_calculation := False\<rparr>) = Inl e"
  using assms by (simp add: calculate_def step1_result_def)

lemma calculate_sync_Inl:
  assumes "validate_input DOFs input" and "step1_result sv DOFs locals0 input r out = Inr pl1"
    and "synchronize (blocks pl1) (minimum_duration input) (plan_profiles pl1) = Inl e"
  shows "calculate sv DOFs locals0 input (r\<lparr>t_clock := tc\<rparr>) (out\<lparr>new_calculation := False\<rparr>) = Inl e"
  using assms by (simp add: calculate_def step1_result_def)

lemma calculate_sync_None:
  assumes "validate_input DOFs input" and "step1_result sv DOFs locals0 input r out = Inr pl1"
    and "synchronize (blocks pl1) (minimum_duration input) (plan_profiles pl1) = Inr None"
  shows "calculate sv DOFs locals0 input (r\<lparr>t_clock := tc\<rparr>) (out\<lparr>new_calculation := False\<rparr>)
           = Inl runtime_error_synchronization"
  using assms by (simp add: calculate_def step1_result_def)

lemma calculate_step2_Inl:
  assumes "validate_input DOFs input" and "step1_result sv DOFs locals0 input r out = Inr pl1"
    and "synchronize (blocks pl1) (minimum_duration input) (plan_profiles pl1) = Inr (Some (t_sync, ld, profs))"
    and "Finite 0 < t_sync"
    and "step2_loop sv input t_sync ld [0..<DOFs] (pl1\<lparr>plan_profiles := profs\<rparr>) = Inl e"
  shows "calculate sv DOFs locals0 input (r\<lparr>t_clock := tc\<rparr>) (out\<lparr>new_calculation := False\<rparr>) = Inl e"
  using assms by (simp add: calculate_def step1_result_def)

lemma update_result_values:
  assumes "update sv DOFs locals0 input r out = Inr (res, r', out')"
  shows "res = Working \<or> res = Finished \<or> res = Error"
proof (cases "input = current_input r")
  case True
  then show ?thesis using assms by (auto simp: update_same_input sample_and_advance_eq split: if_splits)
next
  case False
  show ?thesis
  proof (cases "calculate sv DOFs locals0 input (r\<lparr>t_clock := t_clock r + delta_time r\<rparr>) (out\<lparr>new_calculation := False\<rparr>)")
    case (Inl e)
    then show ?thesis using assms by (simp add: update_other_input[OF False])
  next
    case (Inr tr)
    obtain res0 r2 out2 where "tr = (res0, r2, out2)" by (cases tr)
    then show ?thesis using assms Inr
      by (auto simp: update_other_input[OF False] sample_and_advance_eq split: if_splits)
  qed
qed

lemma update_invalid_input:
  assumes "input \<noteq> current_input r" and "\<not> validate_input DOFs input"
  shows "update sv DOFs locals0 input r out
           = Inr (Error, r\<lparr>t_clock := t_clock r + delta_time r, current_input := input\<rparr>,
                  out\<lparr>new_calculation := False\<rparr>)"
  using assms(2) unfolding update_other_input[OF assms(1)] by (simp add: calculate_def)

lemma update_Error_iff:
  assumes "update sv DOFs locals0 input r out = Inr (res, r', out')"
  shows "res = Error \<longleftrightarrow> input \<noteq> current_input r \<and> \<not> validate_input DOFs input"
proof (cases "input = current_input r")
  case True
  then show ?thesis using assms by (auto simp: update_same_input sample_and_advance_eq split: if_splits)
next
  case False
  note ne = False
  show ?thesis
  proof (cases "validate_input DOFs input")
    case False
    then show ?thesis using assms ne by (simp add: update_invalid_input)
  next
    case True
    let ?c = "calculate sv DOFs locals0 input (r\<lparr>t_clock := t_clock r + delta_time r\<rparr>) (out\<lparr>new_calculation := False\<rparr>)"
    show ?thesis
    proof (cases ?c)
      case (Inl e)
      then show ?thesis using assms by (simp add: update_other_input[OF ne])
    next
      case (Inr tr)
      obtain res0 r2 out2 where tr: "tr = (res0, r2, out2)" by (cases tr)
      have c: "?c = Inr (res0, r2, out2)" using Inr tr by simp
      have "res0 = Working" using calculate_Inr[OF c] True by auto
      then have "(res, r', out') = sample_and_advance DOFs r2 out2"
        using assms unfolding update_other_input[OF ne] c by simp
      then have "res \<noteq> Error" by (auto simp: sample_and_advance_eq split: if_splits)
      then show ?thesis using True by simp
    qed
  qed
qed

text \<open>
  C1 (amended). When the input passes validation and differs from the cached input,
  \<open>update\<close> plans: if \<^verbatim>\<open>Step1\<close> finds no profile for some enabled axis, \<open>update\<close> throws the
  \<^verbatim>\<open>std::runtime_error\<close> of line 287; if the synchronizer exhausts its candidates, it throws
  that of line 300; if \<^verbatim>\<open>Step2\<close> fails for an enabled axis other than the limiting one
  (with \<open>tf > 0\<close>), it throws that of line 315. No \<^verbatim>\<open>Result\<close> is returned in these cases.
  Whatever the input and the state are, the only \<^verbatim>\<open>Result\<close> values that \<open>update\<close> returns
  are \<^verbatim>\<open>Working\<close>, \<^verbatim>\<open>Finished\<close> and \<^verbatim>\<open>Error\<close>, never \<^verbatim>\<open>ErrorExecutionTimeCalculation\<close> or
  \<^verbatim>\<open>ErrorSynchronizationCalculation\<close>, and it returns \<^verbatim>\<open>Error\<close> exactly for an input
  that differs from the cached one and fails validation; for such an input it does return
  \<^verbatim>\<open>Error\<close>, with the clock advanced and the rejected input cached.
\<close>

theorem planning_failure_is_thrown:
  "(validate_input DOFs input \<and> input \<noteq> current_input r \<longrightarrow>
      ((\<exists>dof<DOFs. enabled input ! dof \<and> step1_fails sv input (profiles r ! dof) dof) \<longrightarrow>
            (\<exists>dof<DOFs. update sv DOFs locals0 input r out = Inl (runtime_error_step1 dof)))
      \<and> (\<forall>pl1. step1_result sv DOFs locals0 input r out = Inr pl1 \<longrightarrow>
            (synchronize (blocks pl1) (minimum_duration input) (plan_profiles pl1) = Inr None \<longrightarrow>
               update sv DOFs locals0 input r out = Inl runtime_error_synchronization)
            \<and> (\<forall>t_sync ld profs.
                  synchronize (blocks pl1) (minimum_duration input) (plan_profiles pl1)
                    = Inr (Some (t_sync, ld, profs))
                  \<and> Finite 0 < t_sync
                  \<and> (\<exists>dof<DOFs. enabled input ! dof \<and> dof \<noteq> ld
                         \<and> step2_fails sv input t_sync (pl1\<lparr>plan_profiles := profs\<rparr>) dof) \<longrightarrow>
                  (\<exists>dof<DOFs. update sv DOFs locals0 input r out = Inl (runtime_error_step2 dof)))))
   \<and> (\<forall>res r' out'. update sv DOFs locals0 input r out = Inr (res, r', out') \<longrightarrow>
         (res = Working \<or> res = Finished \<or> res = Error)
         \<and> res \<noteq> ErrorExecutionTimeCalculation \<and> res \<noteq> ErrorSynchronizationCalculation
         \<and> (res = Error \<longleftrightarrow> input \<noteq> current_input r \<and> \<not> validate_input DOFs input))
   \<and> (input \<noteq> current_input r \<and> \<not> validate_input DOFs input \<longrightarrow>
         update sv DOFs locals0 input r out
           = Inr (Error, r\<lparr>t_clock := t_clock r + delta_time r, current_input := input\<rparr>,
                  out\<lparr>new_calculation := False\<rparr>))"
proof (intro conjI impI allI)
  assume vn: "validate_input DOFs input \<and> input \<noteq> current_input r"
  then have v: "validate_input DOFs input" and ne: "input \<noteq> current_input r" by simp_all
  assume "\<exists>dof<DOFs. enabled input ! dof \<and> step1_fails sv input (profiles r ! dof) dof"
  then have "\<exists>dof\<in>set [0..<DOFs]. enabled input ! dof
      \<and> step1_fails sv input (plan_profiles (locals0\<lparr>plan_profiles := profiles r,
            plan_output := out\<lparr>new_calculation := False\<rparr>\<rparr>) ! dof) dof"
    by auto
  from step1_loop_fails[OF this] obtain dof where
    "dof < DOFs" "step1_result sv DOFs locals0 input r out = Inl (runtime_error_step1 dof)"
    by (auto simp: step1_result_def)
  then show "\<exists>dof<DOFs. update sv DOFs locals0 input r out = Inl (runtime_error_step1 dof)"
    using calculate_step1_Inl[OF v] by (auto simp: update_other_input[OF ne])
next
  fix pl1
  assume vn: "validate_input DOFs input \<and> input \<noteq> current_input r"
  then have v: "validate_input DOFs input" and ne: "input \<noteq> current_input r" by simp_all
  assume s1: "step1_result sv DOFs locals0 input r out = Inr pl1"
    and sy: "synchronize (blocks pl1) (minimum_duration input) (plan_profiles pl1) = Inr None"
  show "update sv DOFs locals0 input r out = Inl runtime_error_synchronization"
    by (simp add: update_other_input[OF ne] calculate_sync_None[OF v s1 sy])
next
  fix pl1 t_sync ld profs
  assume vn: "validate_input DOFs input \<and> input \<noteq> current_input r"
  then have v: "validate_input DOFs input" and ne: "input \<noteq> current_input r" by simp_all
  assume s1: "step1_result sv DOFs locals0 input r out = Inr pl1"
    and h: "synchronize (blocks pl1) (minimum_duration input) (plan_profiles pl1)
                  = Inr (Some (t_sync, ld, profs))
                \<and> Finite 0 < t_sync
                \<and> (\<exists>dof<DOFs. enabled input ! dof \<and> dof \<noteq> ld
                       \<and> step2_fails sv input t_sync (pl1\<lparr>plan_profiles := profs\<rparr>) dof)"
  then have "\<exists>dof\<in>set [0..<DOFs]. enabled input ! dof \<and> dof \<noteq> ld
                       \<and> step2_fails sv input t_sync (pl1\<lparr>plan_profiles := profs\<rparr>) dof"
    by auto
  from step2_loop_fails[OF this] obtain dof where dof: "dof < DOFs"
    "step2_loop sv input t_sync ld [0..<DOFs] (pl1\<lparr>plan_profiles := profs\<rparr>) = Inl (runtime_error_step2 dof)"
    by auto
  have "update sv DOFs locals0 input r out = Inl (runtime_error_step2 dof)"
    using h by (simp add: update_other_input[OF ne] calculate_step2_Inl[OF v s1 _ _ dof(2)])
  then show "\<exists>dof<DOFs. update sv DOFs locals0 input r out = Inl (runtime_error_step2 dof)"
    using dof(1) by blast
next
  fix res r' out'
  assume "update sv DOFs locals0 input r out = Inr (res, r', out')"
  then show "res = Working \<or> res = Finished \<or> res = Error" by (rule update_result_values)
next
  fix res r' out'
  assume "update sv DOFs locals0 input r out = Inr (res, r', out')"
  then have "res = Working \<or> res = Finished \<or> res = Error" by (rule update_result_values)
  then show "res \<noteq> ErrorExecutionTimeCalculation" "res \<noteq> ErrorSynchronizationCalculation" by auto
next
  fix res r' out'
  assume "update sv DOFs locals0 input r out = Inr (res, r', out')"
  then show "res = Error \<longleftrightarrow> input \<noteq> current_input r \<and> \<not> validate_input DOFs input"
    by (rule update_Error_iff)
next
  assume "input \<noteq> current_input r \<and> \<not> validate_input DOFs input"
  then show "update sv DOFs locals0 input r out
           = Inr (Error, r\<lparr>t_clock := t_clock r + delta_time r, current_input := input\<rparr>,
                  out\<lparr>new_calculation := False\<rparr>)"
    by (simp add: update_invalid_input)
qed

lemma brake_profile_no_brake:
  assumes "get_brake_trajectory sv (current_velocity input ! dof) (current_acceleration input ! dof)
             (max_velocity input ! dof) (max_acceleration input ! dof) (max_jerk input ! dof)
             (t_brakes prof0) (j_brakes prof0) = (tb, jb)"
    and "\<not> 0 < tb ! 0"
  shows "brake_profile sv input dof prof0 =
     (prof0\<lparr>t_brakes := tb, j_brakes := jb, t_brake := Some (tb ! 0 + tb ! 1)\<rparr>,
      current_position input ! dof, current_velocity input ! dof, current_acceleration input ! dof)"
  using assms by (simp add: brake_profile_def)

lemma step1_loop_single:
  assumes "enabled input ! 0"
    and "brake_profile sv input 0 (plan_profiles pl ! 0) = (prof, p0, v0, a0)"
    and "step1_get_profile sv p0 v0 a0 (target_position input ! 0) (target_velocity input ! 0)
           (target_acceleration input ! 0) (max_velocity input ! 0)
           (max_acceleration input ! 0) (max_jerk input ! 0) prof = Some blk"
  shows "step1_loop sv input [0..<1] pl =
     Inr (pl\<lparr>plan_profiles := (plan_profiles pl)[0 := prof],
             p0s := (p0s pl)[0 := p0], v0s := (v0s pl)[0 := v0], a0s := (a0s pl)[0 := a0],
             blocks := (blocks pl)[0 := blk],
             plan_output := (plan_output pl)\<lparr>independent_min_durations :=
               (independent_min_durations (plan_output pl))[0 := t_min blk]\<rparr>\<rparr>)"
  using assms by simp

lemma synchronize_no_intervals_floor:
  assumes "t_min blk < m" "a_interval blk = None" "b_interval blk = None" "p_a blk = None"
  shows "synchronize [blk] (Some m) profs = Inl bad_optional_access"
proof -
  have c: "possible_t_syncs [blk] = [Finite (t_min blk), Infinity, Infinity]"
    using assms by (simp add: possible_t_syncs_def)
  have r: "rejected [blk] (Some m) (Finite (t_min blk))" "\<not> rejected [blk] (Some m) Infinity"
    using assms by (simp_all add: rejected_def is_blocked_def)
  show ?thesis using r assms(4) by (simp add: synchronize_def c sorted_idx_three accept_eq)
qed

text \<open>
  C4 does not hold of the source. For one axis with a floor \<open>m\<close>, whenever \<^verbatim>\<open>Step1\<close> answers
  with a minimum duration below \<open>m\<close> and no forbidden interval, \<open>update\<close> yields no
  duration and no sample: the infinite candidate of the absent interval \<open>a\<close> is accepted and
  \<^verbatim>\<open>p_a.value()\<close> throws.
\<close>

theorem minimum_duration_single_axis_throws:
  assumes v: "validate_input 1 input" and ne: "input \<noteq> current_input r" and en: "enabled input ! 0"
    and fl: "minimum_duration input = Some m" and lb: "length (blocks locals0) = 1"
    and bp: "brake_profile sv input 0 (profiles r ! 0) = (prof, p0, v0, a0)"
    and st: "step1_get_profile sv p0 v0 a0 (target_position input ! 0) (target_velocity input ! 0)
           (target_acceleration input ! 0) (max_velocity input ! 0)
           (max_acceleration input ! 0) (max_jerk input ! 0) prof = Some blk"
    and blk: "t_min blk < m" "a_interval blk = None" "b_interval blk = None" "p_a blk = None"
  shows "update sv 1 locals0 input r out = Inl bad_optional_access"
proof -
  let ?pl0 = "locals0\<lparr>plan_profiles := profiles r, plan_output := out\<lparr>new_calculation := False\<rparr>\<rparr>"
  have bp': "brake_profile sv input 0 (plan_profiles ?pl0 ! 0) = (prof, p0, v0, a0)" using bp by simp
  note s1 = step1_loop_single[OF en bp' st]
  have b: "(blocks locals0)[0 := blk] = [blk]" using lb by (cases "blocks locals0") simp_all
  define pl1 where "pl1 = ?pl0\<lparr>plan_profiles := (plan_profiles ?pl0)[0 := prof],
             p0s := (p0s ?pl0)[0 := p0], v0s := (v0s ?pl0)[0 := v0], a0s := (a0s ?pl0)[0 := a0],
             blocks := (blocks ?pl0)[0 := blk],
             plan_output := (plan_output ?pl0)\<lparr>independent_min_durations :=
               (independent_min_durations (plan_output ?pl0))[0 := t_min blk]\<rparr>\<rparr>"
  have r1: "step1_result sv 1 locals0 input r out = Inr pl1"
    unfolding step1_result_def pl1_def by (rule s1)
  have bl: "blocks pl1 = [blk]" by (simp add: pl1_def b)
  have sy: "synchronize (blocks pl1) (minimum_duration input) (plan_profiles pl1) = Inl bad_optional_access"
    unfolding bl fl by (rule synchronize_no_intervals_floor[OF blk])
  show ?thesis unfolding update_other_input[OF ne] calculate_sync_Inl[OF v r1 sy] by simp
qed

lemma validate_input_example: "validate_input 1 input_example" "validate_input 1 input_floor_100"
  "validate_input 1 input_floor"
  by (simp_all add: validate_input_def validate_axis_def input_example_def input_floor_100_def
      input_floor_def)

lemma brake_profile_plain:
  assumes "get_brake_trajectory sv = get_brake_trajectory solvers_plain"
  shows "brake_profile sv input dof prof0 =
     (prof0\<lparr>t_brakes := [0, 0], j_brakes := [0, 0], t_brake := Some 0\<rparr>,
      current_position input ! dof, current_velocity input ! dof, current_acceleration input ! dof)"
proof -
  have "get_brake_trajectory sv (current_velocity input ! dof) (current_acceleration input ! dof)
             (max_velocity input ! dof) (max_acceleration input ! dof) (max_jerk input ! dof)
             (t_brakes prof0) (j_brakes prof0) = ([0, 0], [0, 0])"
    by (simp add: assms solvers_plain_def)
  from brake_profile_no_brake[OF this] show ?thesis by simp
qed

text \<open>The theorem at the scenario \<open>input_floor\<close> with the solvers \<open>solvers_rest\<close>.\<close>

theorem minimum_duration_single_axis_witness:
  "validate_input 1 input_floor \<and> input_floor \<noteq> current_input ruckig_fresh
   \<and> enabled input_floor ! 0 \<and> minimum_duration input_floor = Some 10
   \<and> step1_get_profile solvers_rest 0 0 0 1 0 0 1 1 1
        (check_example_done\<lparr>t_brakes := [0, 0], j_brakes := [0, 0], t_brake := Some 0\<rparr>) = Some block_rest
   \<and> t_min block_rest < 10 \<and> a_interval block_rest = None \<and> b_interval block_rest = None
   \<and> p_a block_rest = None
   \<and> update solvers_rest 1 locals_one input_floor ruckig_fresh output_example = Inl bad_optional_access"
proof -
  have ne: "input_floor \<noteq> current_input ruckig_fresh"
    by (simp add: ruckig_fresh_def input_floor_def input_example_def)
  have en: "enabled input_floor ! 0" and fl: "minimum_duration input_floor = Some 10"
    by (simp_all add: input_floor_def)
  have lb: "length (blocks locals_one) = 1" by (simp add: locals_one_def)
  have g: "get_brake_trajectory solvers_rest = get_brake_trajectory solvers_plain"
    by (simp add: solvers_rest_def)
  have bp: "brake_profile solvers_rest input_floor 0 (profiles ruckig_fresh ! 0) =
      (check_example_done\<lparr>t_brakes := [0, 0], j_brakes := [0, 0], t_brake := Some 0\<rparr>, 0, 0, 0)"
    unfolding brake_profile_plain[OF g] by (simp add: ruckig_fresh_def ruckig_example_def input_floor_def)
  have st0: "step1_get_profile solvers_rest 0 0 0 1 0 0 1 1 1
        (check_example_done\<lparr>t_brakes := [0, 0], j_brakes := [0, 0], t_brake := Some 0\<rparr>) = Some block_rest"
    by (simp add: solvers_rest_def)
  have st: "step1_get_profile solvers_rest 0 0 0 (target_position input_floor ! 0)
      (target_velocity input_floor ! 0) (target_acceleration input_floor ! 0) (max_velocity input_floor ! 0)
      (max_acceleration input_floor ! 0) (max_jerk input_floor ! 0)
      (check_example_done\<lparr>t_brakes := [0, 0], j_brakes := [0, 0], t_brake := Some 0\<rparr>) = Some block_rest"
    by (simp add: solvers_rest_def)
  have blk: "t_min block_rest < 10" "a_interval block_rest = None" "b_interval block_rest = None"
    "p_a block_rest = None"
    by (simp_all add: block_rest_def block_plain_def)
  note T = minimum_duration_single_axis_throws[OF validate_input_example(3) ne en fl lb bp st blk,
      of output_example]
  show ?thesis by (intro conjI) (rule validate_input_example(3) ne en fl st0 blk T)+
qed

lemma sorted_idx_finite3:
  "x \<le> y \<Longrightarrow> y \<le> z \<Longrightarrow> sorted_idx [Finite x, Finite y, Finite z] = [0, 1, 2]"
  by (simp add: sorted_idx_def upt_rec)

lemma synchronize_floor_above_all:
  assumes "a_interval blk = Some iva" "b_interval blk = Some ivb"
    and "t_min blk \<le> right iva" "right iva \<le> right ivb" "right ivb < m"
  shows "synchronize [blk] (Some m) profs = Inr None"
proof -
  have c: "possible_t_syncs [blk] = [Finite (t_min blk), Finite (right iva), Finite (right ivb)]"
    using assms by (simp add: possible_t_syncs_def)
  have r: "rejected [blk] (Some m) (Finite (t_min blk))" "rejected [blk] (Some m) (Finite (right iva))"
    "rejected [blk] (Some m) (Finite (right ivb))"
    using assms by (simp_all add: rejected_def)
  show ?thesis using r by (simp add: synchronize_def c sorted_idx_finite3[OF assms(3,4)])
qed

lemma sorted_idx_two_plain:
  "sorted_idx [Finite x, Infinity, Infinity, Finite x, Infinity, Infinity] = [0, 3, 1, 2, 4, 5]"
  by (simp add: sorted_idx_def upt_rec)

lemma synchronize_two_plain:
  "synchronize [block_plain, block_plain] None profs
     = Inr (Some (Finite 3, 0, profs[0 := check_example_done]))"
proof -
  have c: "possible_t_syncs [block_plain, block_plain]
      = [Finite 3, Infinity, Infinity, Finite 3, Infinity, Infinity]"
    by (simp add: possible_t_syncs_def block_plain_def)
  have r: "\<not> rejected [block_plain, block_plain] None (Finite 3)"
    by (simp add: rejected_def is_blocked_def block_plain_def)
  have p: "p_min ([block_plain, block_plain] ! (0 div 3)) = check_example_done"
    by (simp add: block_plain_def)
  show ?thesis using r p by (simp add: synchronize_def c sorted_idx_two_plain accept_eq)
qed

text \<open>
  The theorem at three plans and at a rejected input: one axis whose \<^verbatim>\<open>Step1\<close> fails; one
  axis with two forbidden intervals and the floor 100, above every candidate; two axes
  whose \<^verbatim>\<open>Step2\<close> fails; and \<open>input_invalid\<close>, for which \<open>update\<close> returns \<^verbatim>\<open>Error\<close>.
\<close>

theorem planning_failure_is_thrown_witness:
  "validate_input 1 input_example \<and> input_example \<noteq> current_input ruckig_fresh
   \<and> enabled input_example ! 0
   \<and> step1_fails solvers_no_step1 input_example (profiles ruckig_fresh ! 0) 0
   \<and> (\<exists>dof<1. update solvers_no_step1 1 locals_one input_example ruckig_fresh output_example
                  = Inl (runtime_error_step1 dof))
   \<and> validate_input 1 input_floor_100 \<and> input_floor_100 \<noteq> current_input ruckig_fresh
   \<and> (\<exists>pl1. step1_result solvers_gaps 1 locals_one input_floor_100 ruckig_fresh output_example = Inr pl1
          \<and> synchronize (blocks pl1) (minimum_duration input_floor_100) (plan_profiles pl1) = Inr None)
   \<and> update solvers_gaps 1 locals_one input_floor_100 ruckig_fresh output_example
       = Inl runtime_error_synchronization
   \<and> validate_input 2 input_two \<and> input_two \<noteq> current_input ruckig_disabled
   \<and> (\<exists>pl1 profs. step1_result solvers_plain 2 locals_two input_two ruckig_disabled output_two = Inr pl1
          \<and> synchronize (blocks pl1) (minimum_duration input_two) (plan_profiles pl1)
               = Inr (Some (Finite 3, 0, profs))
          \<and> enabled input_two ! 1
          \<and> step2_fails solvers_plain input_two (Finite 3) (pl1\<lparr>plan_profiles := profs\<rparr>) 1)
   \<and> (\<exists>dof<2. update solvers_plain 2 locals_two input_two ruckig_disabled output_two
                  = Inl (runtime_error_step2 dof))
   \<and> input_invalid \<noteq> current_input ruckig_example \<and> \<not> validate_input 1 input_invalid
   \<and> update solvers_plain 1 locals_one input_invalid ruckig_example output_example
       = Inr (Error,
              ruckig_example\<lparr>t_clock := t_clock ruckig_example + delta_time ruckig_example,
                current_input := input_invalid\<rparr>,
              output_example\<lparr>new_calculation := False\<rparr>)"
proof -
  have ne1: "input_example \<noteq> current_input ruckig_fresh"
    by (simp add: ruckig_fresh_def input_example_def)
  have en1: "enabled input_example ! 0" by (simp add: input_example_def)
  have f1: "step1_fails solvers_no_step1 input_example (profiles ruckig_fresh ! 0) 0"
    by (simp add: step1_fails_def solvers_no_step1_def split: prod.splits)
  have h1: "\<exists>dof<1. enabled input_example ! dof
      \<and> step1_fails solvers_no_step1 input_example (profiles ruckig_fresh ! dof) dof"
    using en1 f1 by auto
  note A = planning_failure_is_thrown[of 1 input_example ruckig_fresh solvers_no_step1 locals_one output_example,
      THEN conjunct1, THEN mp, OF conjI, OF validate_input_example(1) ne1, THEN conjunct1, THEN mp, OF h1]
  have ne2: "input_floor_100 \<noteq> current_input ruckig_fresh"
    by (simp add: ruckig_fresh_def input_floor_100_def input_example_def)
  have g2: "get_brake_trajectory solvers_gaps = get_brake_trajectory solvers_plain"
    by (simp add: solvers_gaps_def)
  have en2: "enabled input_floor_100 ! 0" by (simp add: input_floor_100_def input_example_def)
  obtain prof p0 v0 a0 where bp2: "brake_profile solvers_gaps input_floor_100 0
      (plan_profiles (locals_one\<lparr>plan_profiles := profiles ruckig_fresh,
         plan_output := output_example\<lparr>new_calculation := False\<rparr>\<rparr>) ! 0) = (prof, p0, v0, a0)"
    by (rule prod_cases4)
  have st2: "step1_get_profile solvers_gaps p0 v0 a0 (target_position input_floor_100 ! 0)
      (target_velocity input_floor_100 ! 0) (target_acceleration input_floor_100 ! 0)
      (max_velocity input_floor_100 ! 0) (max_acceleration input_floor_100 ! 0)
      (max_jerk input_floor_100 ! 0) prof = Some block_two_gaps"
    by (simp add: solvers_gaps_def)
  note L2 = step1_loop_single[OF en2 bp2 st2]
  define pl2 where "pl2 = projr (step1_result solvers_gaps 1 locals_one input_floor_100 ruckig_fresh output_example)"
  have s2: "step1_result solvers_gaps 1 locals_one input_floor_100 ruckig_fresh output_example = Inr pl2"
    unfolding pl2_def step1_result_def L2 by simp
  have b2: "blocks pl2 = [block_two_gaps]"
    unfolding pl2_def step1_result_def L2 by (simp add: locals_one_def)
  have sy2: "synchronize (blocks pl2) (minimum_duration input_floor_100) (plan_profiles pl2) = Inr None"
    unfolding b2
    by (simp add: input_floor_100_def block_two_gaps_def block_gap_def
        synchronize_floor_above_all[of _ "\<lparr>left = 3, right = 12\<rparr>" "\<lparr>left = 13, right = 20\<rparr>"])
  note B = planning_failure_is_thrown[of 1 input_floor_100 ruckig_fresh solvers_gaps locals_one output_example,
      THEN conjunct1, THEN mp, OF conjI, OF validate_input_example(2) ne2,
      THEN conjunct2, THEN spec, of pl2, THEN mp, OF s2, THEN conjunct1, THEN mp, OF sy2]
  have v3: "validate_input 2 input_two"
    by (simp add: validate_input_def validate_axis_def input_two_def input_disabled_def upt_rec)
  have ne3: "input_two \<noteq> current_input ruckig_disabled"
    by (simp add: ruckig_disabled_def input_two_def input_disabled_def)
  have st_plain: "step1_get_profile solvers_plain p0 v0 a0 pf vf af vMax aMax jMax prof = Some block_plain"
    for p0 v0 a0 pf vf af vMax aMax jMax prof
    by (simp add: solvers_plain_def)
  define pl3 where "pl3 = projr (step1_result solvers_plain 2 locals_two input_two ruckig_disabled output_two)"
  have ev3: "step1_result solvers_plain 2 locals_two input_two ruckig_disabled output_two
      = Inr (locals_two\<lparr>plan_profiles :=
               [check_example_done\<lparr>t_brakes := [0, 0], j_brakes := [0, 0], t_brake := Some 0\<rparr>,
                check_example_done\<lparr>t_brakes := [0, 0], j_brakes := [0, 0], t_brake := Some 0\<rparr>],
             p0s := [0, 0], v0s := [0, 0], a0s := [0, 0], blocks := [block_plain, block_plain],
             plan_output := output_two\<lparr>new_calculation := False, independent_min_durations := [3, 3]\<rparr>\<rparr>)"
    by (simp add: step1_result_def upt_rec brake_profile_plain[OF refl] st_plain input_two_def
        input_disabled_def locals_two_def ruckig_disabled_def output_two_def block_plain_def)
  have s3: "step1_result solvers_plain 2 locals_two input_two ruckig_disabled output_two = Inr pl3"
    unfolding pl3_def ev3 by simp
  have b3: "blocks pl3 = [block_plain, block_plain]" "minimum_duration input_two = None"
    unfolding pl3_def ev3 by (simp_all add: input_two_def input_disabled_def)
  have sy3: "synchronize (blocks pl3) (minimum_duration input_two) (plan_profiles pl3)
       = Inr (Some (Finite 3, 0, (plan_profiles pl3)[0 := check_example_done]))"
    unfolding b3 by (rule synchronize_two_plain)
  have en3: "enabled input_two ! 1" by (simp add: input_two_def)
  have f3: "step2_fails solvers_plain input_two (Finite 3)
      (pl3\<lparr>plan_profiles := (plan_profiles pl3)[0 := check_example_done]\<rparr>) 1"
    by (simp add: step2_fails_def solvers_plain_def)
  have h3: "synchronize (blocks pl3) (minimum_duration input_two) (plan_profiles pl3)
                  = Inr (Some (Finite 3, 0, (plan_profiles pl3)[0 := check_example_done]))
                \<and> Finite 0 < Finite 3
                \<and> (\<exists>dof<2. enabled input_two ! dof \<and> dof \<noteq> 0
                       \<and> step2_fails solvers_plain input_two (Finite 3)
                           (pl3\<lparr>plan_profiles := (plan_profiles pl3)[0 := check_example_done]\<rparr>) dof)"
    using sy3 en3 f3 by (intro conjI exI[of _ 1]) simp_all
  note C = planning_failure_is_thrown[of 2 input_two ruckig_disabled solvers_plain locals_two output_two,
      THEN conjunct1, THEN mp, OF conjI, OF v3 ne3,
      THEN conjunct2, THEN spec, of pl3, THEN mp, OF s3, THEN conjunct2,
      THEN spec, THEN spec, THEN spec, THEN mp, OF h3]
  have ne4: "input_invalid \<noteq> current_input ruckig_example"
    by (simp add: ruckig_example_def input_invalid_def input_example_def)
  have v4: "\<not> validate_input 1 input_invalid"
    by (simp add: validate_input_def validate_axis_def input_invalid_def)
  note D = planning_failure_is_thrown[of 1 input_invalid ruckig_example solvers_plain locals_one output_example,
      THEN conjunct2, THEN conjunct2, THEN mp, OF conjI, OF ne4 v4]
  have e2: "\<exists>pl1. step1_result solvers_gaps 1 locals_one input_floor_100 ruckig_fresh output_example = Inr pl1
          \<and> synchronize (blocks pl1) (minimum_duration input_floor_100) (plan_profiles pl1) = Inr None"
    using s2 sy2 by blast
  have e3: "\<exists>pl1 profs. step1_result solvers_plain 2 locals_two input_two ruckig_disabled output_two = Inr pl1
          \<and> synchronize (blocks pl1) (minimum_duration input_two) (plan_profiles pl1)
               = Inr (Some (Finite 3, 0, profs))
          \<and> enabled input_two ! 1
          \<and> step2_fails solvers_plain input_two (Finite 3) (pl1\<lparr>plan_profiles := profs\<rparr>) 1"
    using s3 sy3 en3 f3 by blast
  show ?thesis
    by (intro conjI) (rule validate_input_example ne1 en1 f1 A ne2 e2 B v3 ne3 e3 C ne4 v4 D)+
qed

text \<open>
  C1 as stated fails: when \<^verbatim>\<open>Step1\<close> finds no profile, \<open>update\<close> does not return
  \<^verbatim>\<open>ErrorExecutionTimeCalculation\<close>; the exception of line 287 leaves the call.
\<close>

theorem planning_failure_counterexample:
  "validate_input 1 input_example \<and> input_example \<noteq> current_input ruckig_fresh
   \<and> step1_fails solvers_no_step1 input_example (profiles ruckig_fresh ! 0) 0
   \<and> update solvers_no_step1 1 locals_one input_example ruckig_fresh output_example
       = Inl (runtime_error_step1 0)"
proof -
  have ne1: "input_example \<noteq> current_input ruckig_fresh"
    by (simp add: ruckig_fresh_def input_example_def)
  have f1: "step1_fails solvers_no_step1 input_example (profiles ruckig_fresh ! 0) 0"
    by (simp add: step1_fails_def solvers_no_step1_def split: prod.splits)
  have en1: "enabled input_example ! 0" by (simp add: input_example_def)
  have "step1_result solvers_no_step1 1 locals_one input_example ruckig_fresh output_example
      = Inl (runtime_error_step1 0)"
    using en1 by (simp add: step1_result_def solvers_no_step1_def split: prod.splits)
  from calculate_step1_Inl[OF validate_input_example(1) this]
  have "update solvers_no_step1 1 locals_one input_example ruckig_fresh output_example
       = Inl (runtime_error_step1 0)"
    unfolding update_other_input[OF ne1] by simp
  then show ?thesis using validate_input_example(1) ne1 f1 by simp
qed

end
